theory Spec2Isabelle
  imports Complex_Main "HOL-Library.Sublist" "HOL-Library.Word"
begin

section \<open>Python values and string primitives\<close>

text \<open>
  The downloader is one Python module, \<^verbatim>\<open>nexus_api_downloaderV1.2.py\<close>. Its functions
  work on text, on values produced by \<^verbatim>\<open>json.load\<close> / \<^verbatim>\<open>response.json()\<close>, on the
  network and on the file system. A character of the model is a code point below 256
  (ASCII and Latin-1); a Python \<^verbatim>\<open>str\<close> is a \<^typ>\<open>string\<close>.
\<close>

text \<open>\<^verbatim>\<open>str.lower()\<close> on one code point below 256: A-Z, and the Latin-1 capitals
  0xC0-0xDE without the multiplication sign 0xD7, move up by 32.\<close>

definition py_lower_char :: "char \<Rightarrow> char" where
  "py_lower_char c =
     (let n = (of_char c :: nat)
      in if (65 \<le> n \<and> n \<le> 90) \<or> (192 \<le> n \<and> n \<le> 222 \<and> n \<noteq> 215)
         then char_of (n + 32) else c)"

definition py_lower :: "string \<Rightarrow> string" where
  "py_lower s = map py_lower_char s"

text \<open>\<^verbatim>\<open>sub in s\<close> for two strings: \<^verbatim>\<open>sub\<close> occurs in \<^verbatim>\<open>s\<close> as a contiguous run.\<close>

fun py_in_str :: "string \<Rightarrow> string \<Rightarrow> bool" where
  "py_in_str sub [] = (sub = [])"
| "py_in_str sub (c # cs) = (prefix sub (c # cs) \<or> py_in_str sub cs)"

text \<open>
  A value as \<^verbatim>\<open>json.load\<close> returns it. An object is the loaded \<^verbatim>\<open>dict\<close>, kept as an
  association list in insertion order and read with \<^const>\<open>map_of\<close>. A float is the
  rational it denotes (every finite double is one); NaN and the infinities, which
  \<^verbatim>\<open>json.load\<close> also accepts, are outside the model.
\<close>

datatype json =
    JNull
  | JBool bool
  | JInt int
  | JFloat rat
  | JStr string
  | JArr "json list"
  | JObj "(string \<times> json) list"

text \<open>The exceptions that the module's code can raise or meet.\<close>

datatype exn =
    AttributeError
  | TypeError
  | ValueError
  | OSError
  | EOFError
  | RequestException

text \<open>Python truthiness, as \<^verbatim>\<open>if x:\<close>, \<^verbatim>\<open>not x\<close> and \<^verbatim>\<open>x and y\<close> test it.\<close>

fun truthy :: "json \<Rightarrow> bool" where
  "truthy JNull = False"
| "truthy (JBool b) = b"
| "truthy (JInt i) = (i \<noteq> 0)"
| "truthy (JFloat q) = (q \<noteq> 0)"
| "truthy (JStr s) = (s \<noteq> [])"
| "truthy (JArr xs) = (xs \<noteq> [])"
| "truthy (JObj kvs) = (kvs \<noteq> [])"

text \<open>\<^verbatim>\<open>v == "text"\<close> for a loaded value \<^verbatim>\<open>v\<close>: only an equal string is equal.\<close>

fun py_eq_str :: "json \<Rightarrow> string \<Rightarrow> bool" where
  "py_eq_str (JStr s) t = (s = t)"
| "py_eq_str _ t = False"

text \<open>
  \<^verbatim>\<open>"text" in v\<close> for a loaded value \<^verbatim>\<open>v\<close>: substring test on a string, membership
  on a list, key membership on a dict, and \<^verbatim>\<open>TypeError\<close> on anything else.
\<close>

fun py_str_in :: "string \<Rightarrow> json \<Rightarrow> exn + bool" where
  "py_str_in t (JStr s) = Inr (py_in_str t s)"
| "py_str_in t (JArr xs) = Inr (\<exists>x \<in> set xs. py_eq_str x t)"
| "py_str_in t (JObj kvs) = Inr (t \<in> fst ` set kvs)"
| "py_str_in t _ = Inl TypeError"

text \<open>\<^verbatim>\<open>d.get(k)\<close> on a loaded value: \<^verbatim>\<open>AttributeError\<close> unless \<^verbatim>\<open>d\<close> is a dict;
  a missing key reads as \<^verbatim>\<open>None\<close>, here \<^const>\<open>JNull\<close>.\<close>

fun py_get :: "json \<Rightarrow> string \<Rightarrow> exn + json" where
  "py_get (JObj kvs) k = Inr (case map_of kvs k of None \<Rightarrow> JNull | Some v \<Rightarrow> v)"
| "py_get _ k = Inl AttributeError"

text \<open>\<^verbatim>\<open>d.get(k, default)\<close>.\<close>

fun py_get_default :: "json \<Rightarrow> string \<Rightarrow> json \<Rightarrow> exn + json" where
  "py_get_default (JObj kvs) k d = Inr (case map_of kvs k of None \<Rightarrow> d | Some v \<Rightarrow> v)"
| "py_get_default _ k d = Inl AttributeError"

section \<open>DomainNormalizer: \<^verbatim>\<open>normalize_game_domain\<close>\<close>

text \<open>The dict \<^verbatim>\<open>mappings\<close>: alias tuples to canonical slug, in insertion order.\<close>

definition mappings :: "(string list \<times> string) list" where
  "mappings =
    [([''skyrimse'', ''skyrimspecialedition''], ''skyrimspecialedition''),
     ([''skyrim'', ''skyrimlegendaryedition''], ''skyrim''),
     ([''fallout4''], ''fallout4''),
     ([''falloutnewvegas'', ''falloutnv''], ''falloutnv'')]"

text \<open>The loop \<^verbatim>\<open>for aliases, canonical_name in mappings.items()\<close>, returning at the
  first alias tuple that holds the name.\<close>

fun lookup_alias :: "(string list \<times> string) list \<Rightarrow> string \<Rightarrow> string option" where
  "lookup_alias [] s = None"
| "lookup_alias ((aliases, canonical_name) # rest) s =
     (if s \<in> set aliases then Some canonical_name else lookup_alias rest s)"

definition normalize_game_domain :: "string \<Rightarrow> string" where
  "normalize_game_domain game_name_from_wabbajack =
     (let game_name_lower = py_lower game_name_from_wabbajack
      in case lookup_alias mappings game_name_lower of
           Some canonical_name \<Rightarrow> canonical_name
         | None \<Rightarrow> game_name_lower)"

text \<open>Every alias of the table, and every canonical slug of the table.\<close>

definition all_aliases :: "string set" where
  "all_aliases = (\<Union>(aliases, canonical_name) \<in> set mappings. set aliases)"

definition canonical_slugs :: "string set" where
  "canonical_slugs = snd ` set mappings"


section \<open>More Python primitives: whitespace, \<^verbatim>\<open>int()\<close>, paths\<close>

text \<open>Python's white space among the code points below 256, which \<^verbatim>\<open>str.strip()\<close>
  removes.\<close>

definition py_isspace :: "char \<Rightarrow> bool" where
  "py_isspace c =
     (let n = (of_char c :: nat)
      in (9 \<le> n \<and> n \<le> 13) \<or> (28 \<le> n \<and> n \<le> 32) \<or> n = 133 \<or> n = 160)"

definition py_strip :: "string \<Rightarrow> string" where
  "py_strip s = rev (dropWhile py_isspace (rev (dropWhile py_isspace s)))"

definition is_digit :: "char \<Rightarrow> bool" where
  "is_digit c = (let n = (of_char c :: nat) in 48 \<le> n \<and> n \<le> 57)"

definition digit_val :: "char \<Rightarrow> nat" where
  "digit_val c = of_char c - 48"

text \<open>The digits of a decimal literal after the first one: a digit, or one underscore
  followed by a digit.\<close>

fun digits_acc :: "nat \<Rightarrow> string \<Rightarrow> nat option" where
  "digits_acc acc [] = Some acc"
| "digits_acc acc [c] = (if is_digit c then Some (10 * acc + digit_val c) else None)"
| "digits_acc acc (c # d # cs) =
     (if is_digit c then digits_acc (10 * acc + digit_val c) (d # cs)
      else if c = CHR ''_'' \<and> is_digit d then digits_acc (10 * acc + digit_val d) cs
      else None)"

definition parse_nat :: "string \<Rightarrow> nat option" where
  "parse_nat s =
     (case s of [] \<Rightarrow> None
      | c # cs \<Rightarrow> if is_digit c then digits_acc (digit_val c) cs else None)"

text \<open>
  The white space that \<^verbatim>\<open>int()\<close> skips around a number is a smaller set: the
  separators 28-31 are white space for \<^verbatim>\<open>str.strip()\<close> but not for \<^verbatim>\<open>int()\<close>, so
  \<^verbatim>\<open>int('5\x1c')\<close> is a \<^verbatim>\<open>ValueError\<close>.
\<close>

definition int_isspace :: "char \<Rightarrow> bool" where
  "int_isspace c =
     (let n = (of_char c :: nat)
      in (9 \<le> n \<and> n \<le> 13) \<or> n = 32 \<or> n = 133 \<or> n = 160)"

definition int_strip :: "string \<Rightarrow> string" where
  "int_strip s = rev (dropWhile int_isspace (rev (dropWhile int_isspace s)))"

text \<open>The interpreter's default limit on the digits of a decimal string
  (\<^verbatim>\<open>sys.int_info.default_max_str_digits\<close>); the sign and underscores do not count,
  leading zeros do.\<close>

definition max_str_digits :: nat where
  "max_str_digits = 4300"

text \<open>
  \<^verbatim>\<open>int(s)\<close> for a string, base 10: white space around, an optional sign, digits with
  single underscores between them, at most \<^const>\<open>max_str_digits\<close> digits.
  \<^const>\<open>None\<close> is \<^verbatim>\<open>ValueError\<close>.
\<close>

definition py_int :: "string \<Rightarrow> int option" where
  "py_int s =
     (if length (filter is_digit s) > max_str_digits then None
      else
        (case int_strip s of
           [] \<Rightarrow> None
         | c # cs \<Rightarrow>
             if c = CHR ''+'' then map_option int (parse_nat cs)
             else if c = CHR ''-'' then map_option (\<lambda>n. - int n) (parse_nat cs)
             else map_option int (parse_nat (c # cs))))"

section \<open>Files and directories\<close>

text \<open>
  The file tree as the run sees it, with POSIX paths and without symbolic links: a
  location is the list of names from the root, and holds a directory or a regular file
  with its bytes. The root is the location \<^term>\<open>[]\<close>.
\<close>

type_synonym byte = "8 word"

datatype node = Dir | File "byte list"

type_synonym files = "string list \<rightharpoonup> node"

text \<open>\<^verbatim>\<open>path.split('/')\<close>\<close>

fun split_path :: "string \<Rightarrow> string list" where
  "split_path [] = [[]]"
| "split_path (c # cs) =
     (if c = CHR ''/'' then [] # split_path cs
      else (case split_path cs of
              [] \<Rightarrow> [[c]]
            | x # xs \<Rightarrow> (c # x) # xs))"

text \<open>
  Following the names of a path from a location. Each name is looked up in a directory,
  so the location reached so far must be one; an empty name and \<^verbatim>\<open>.\<close> stay, \<^verbatim>\<open>..\<close>
  goes up (and stays at the root). \<^const>\<open>None\<close> is a path that cannot be followed
  (\<^verbatim>\<open>FileNotFoundError\<close>, \<^verbatim>\<open>NotADirectoryError\<close>). The location reached need not
  hold anything.
\<close>

fun walk :: "files \<Rightarrow> string list \<Rightarrow> string list \<Rightarrow> string list option" where
  "walk fs loc [] = Some loc"
| "walk fs loc (name # names) =
     (if fs loc \<noteq> Some Dir then None
      else if name = [] \<or> name = ''.'' then walk fs loc names
      else if name = ''..'' then walk fs (butlast loc) names
      else walk fs (loc @ [name]) names)"

text \<open>The location a path names for a process whose working directory is \<^verbatim>\<open>cwd\<close>. A
  path with a NUL character names nothing.\<close>

definition resolve :: "files \<Rightarrow> string list \<Rightarrow> string \<Rightarrow> string list option" where
  "resolve fs cwd path =
     (case path of
        [] \<Rightarrow> None
      | c # cs \<Rightarrow>
          if CHR 0x00 \<in> set path then None
          else walk fs (if c = CHR ''/'' then [] else cwd) (split_path path))"

text \<open>\<^verbatim>\<open>os.path.exists(path)\<close>\<close>

definition os_path_exists :: "files \<Rightarrow> string list \<Rightarrow> string \<Rightarrow> bool" where
  "os_path_exists fs cwd path =
     (case resolve fs cwd path of None \<Rightarrow> False | Some loc \<Rightarrow> fs loc \<noteq> None)"

text \<open>\<^verbatim>\<open>os.path.join(a, b)\<close> on POSIX: an absolute \<^verbatim>\<open>b\<close> replaces \<^verbatim>\<open>a\<close>.\<close>

definition path_join :: "string \<Rightarrow> string \<Rightarrow> string" where
  "path_join a b =
     (case b of
        [] \<Rightarrow> (if a = [] \<or> last a = CHR ''/'' then a else a @ ''/'')
      | c # cs \<Rightarrow>
          if c = CHR ''/'' then b
          else if a = [] \<or> last a = CHR ''/'' then a @ b
          else a @ ''/'' @ b)"

definition API_KEY_FILE :: string where
  "API_KEY_FILE = ''key.txt''"

definition DOWNLOAD_DIRECTORY :: string where
  "DOWNLOAD_DIRECTORY = ''downloads''"

section \<open>LinkResolver: \<^verbatim>\<open>get_nexus_download_url\<close>\<close>

text \<open>
  What \<^verbatim>\<open>requests.get(url, headers=headers)\<close> gives the function: an exception, or a
  response, of which the code reads \<^verbatim>\<open>ok\<close>, the \<^verbatim>\<open>Content-Type\<close> header and
  \<^verbatim>\<open>response.json()\<close> (\<^const>\<open>None\<close> where that raises \<^verbatim>\<open>JSONDecodeError\<close>).
\<close>

record response =
  resp_ok :: bool
  content_type :: "string option"
  body_json :: "json option"

datatype http_result = RequestFailed | Response response

text \<open>
  The loop over \<^verbatim>\<open>download_link_data\<close> (lines 95-105). \<^term>\<open>Inr None\<close>: the loop
  ran to its end; \<^term>\<open>Inr (Some uri)\<close>: it returned \<^verbatim>\<open>link["URI"]\<close>;
  \<^term>\<open>Inl e\<close>: it raised.
\<close>

fun select_link :: "json list \<Rightarrow> exn + json option" where
  "select_link [] = Inr None"
| "select_link (JObj kvs # rest) =
     (case map_of kvs ''URI'' of
        None \<Rightarrow> select_link rest
      | Some uri \<Rightarrow>
          (case map_of kvs ''name'' of
             None \<Rightarrow> select_link rest
           | Some name \<Rightarrow>
               (case py_str_in ''filedelivery.nexusmods.com'' uri of
                  Inl e \<Rightarrow> Inl e
                | Inr True \<Rightarrow> Inr (Some uri)
                | Inr False \<Rightarrow>
                    if py_eq_str (case map_of kvs ''short_name'' of None \<Rightarrow> JNull | Some v \<Rightarrow> v)
                         ''Direct Download''
                       \<or> py_eq_str name ''Primary Download''
                    then Inr (Some uri)
                    else select_link rest)))"
| "select_link (_ # rest) = select_link rest"

text \<open>\<^verbatim>\<open>next((link['URI'] for link in data if isinstance(link, dict) and 'URI' in link), None)\<close>\<close>

fun first_valid_link :: "json list \<Rightarrow> json" where
  "first_valid_link [] = JNull"
| "first_valid_link (JObj kvs # rest) =
     (case map_of kvs ''URI'' of None \<Rightarrow> first_valid_link rest | Some uri \<Rightarrow> uri)"
| "first_valid_link (_ # rest) = first_valid_link rest"

text \<open>
  The body of the \<^verbatim>\<open>try\<close> once the request has been answered, with its three
  handlers: every exception ends in \<^verbatim>\<open>return None\<close>, and \<^verbatim>\<open>None\<close> is \<^const>\<open>JNull\<close>.
  Printing is left out.
\<close>

definition link_from_reply :: "http_result \<Rightarrow> json" where
  "link_from_reply reply =
     (case reply of
        RequestFailed \<Rightarrow> JNull
      | Response r \<Rightarrow>
          if \<not> resp_ok r then JNull
          else if \<not> py_in_str ''application/json''
                     (py_lower (case content_type r of None \<Rightarrow> [] | Some c \<Rightarrow> c))
          then JNull
          else
            (case body_json r of
               None \<Rightarrow> JNull
             | Some (JArr download_link_data) \<Rightarrow>
                 if download_link_data = [] then JNull
                 else
                   (case select_link download_link_data of
                      Inl e \<Rightarrow> JNull
                    | Inr (Some uri) \<Rightarrow> uri
                    | Inr None \<Rightarrow>
                        (let first_valid = first_valid_link download_link_data
                         in if truthy first_valid then first_valid else JNull))
             | Some _ \<Rightarrow> JNull))"

section \<open>Downloader: \<^verbatim>\<open>download_file\<close>\<close>

text \<open>
  One step of \<^verbatim>\<open>r.iter_content(chunk_size=8192)\<close>: a chunk arrives, and \<^verbatim>\<open>f.write\<close>
  of it succeeds or raises \<^verbatim>\<open>OSError\<close> (the flag); or the transport fails, which
  \<^verbatim>\<open>requests\<close> raises as a \<^verbatim>\<open>RequestException\<close>.
\<close>

datatype stream_step = Chunk "byte list" bool | StreamError

text \<open>
  What the surroundings do during one call of \<^verbatim>\<open>download_file\<close>. The three flags
  \<^verbatim>\<open>makedirs_ok\<close>, \<^verbatim>\<open>open_ok\<close> and \<^verbatim>\<open>remove_ok\<close> say whether the operating system
  lets the call go through (permissions, space) where the file tree allows it.
\<close>

record transfer =
  makedirs_ok :: bool
  connect_ok :: bool
  status_ok :: bool
  content_length :: "string option"
  open_ok :: bool
  stream :: "stream_step list"
  remove_ok :: bool

text \<open>
  The loop \<^verbatim>\<open>for chunk in r.iter_content(...)\<close>: the exception that ended it, if any,
  the bytes written to the file, and the count \<^verbatim>\<open>pbar.update\<close> has added up.
\<close>

fun write_chunks ::
  "stream_step list \<Rightarrow> byte list \<Rightarrow> nat \<Rightarrow> exn option \<times> byte list \<times> nat" where
  "write_chunks [] written n = (None, written, n)"
| "write_chunks (StreamError # rest) written n = (Some RequestException, written, n)"
| "write_chunks (Chunk chunk write_ok # rest) written n =
     (if chunk \<noteq> [] then
        (if write_ok then write_chunks rest (written @ chunk) (n + length chunk)
         else (Some OSError, written, n))
      else write_chunks rest written n)"

text \<open>\<^verbatim>\<open>int(r.headers.get('content-length', 0))\<close>\<close>

definition total_size_bytes :: "string option \<Rightarrow> int option" where
  "total_size_bytes h = (case h of None \<Rightarrow> Some 0 | Some v \<Rightarrow> py_int v)"

text \<open>\<^verbatim>\<open>os.makedirs(path, exist_ok=True)\<close> for a path of one name, as
  \<^verbatim>\<open>DOWNLOAD_DIRECTORY\<close> is: an existing directory is left alone, a regular file of that
  name is a \<^verbatim>\<open>FileExistsError\<close>.\<close>

definition os_makedirs :: "transfer \<Rightarrow> files \<Rightarrow> string list \<Rightarrow> string \<Rightarrow> exn + files" where
  "os_makedirs t fs cwd path =
     (if \<not> makedirs_ok t then Inl OSError
      else
        (case resolve fs cwd path of
           None \<Rightarrow> Inl OSError
         | Some loc \<Rightarrow>
             (case fs loc of
                None \<Rightarrow> Inr (fs(loc \<mapsto> Dir))
              | Some Dir \<Rightarrow> Inr fs
              | Some (File content) \<Rightarrow> Inl OSError)))"

text \<open>
  \<^verbatim>\<open>open(path, 'wb')\<close>: the location of the file opened. A NUL character in the path is
  a \<^verbatim>\<open>ValueError\<close>; a path that cannot be followed or that names a directory is an
  \<^verbatim>\<open>OSError\<close>.
\<close>

definition py_open_wb :: "transfer \<Rightarrow> files \<Rightarrow> string list \<Rightarrow> string \<Rightarrow> exn + string list" where
  "py_open_wb t fs cwd path =
     (if CHR 0x00 \<in> set path then Inl ValueError
      else
        (case resolve fs cwd path of
           None \<Rightarrow> Inl OSError
         | Some loc \<Rightarrow>
             if fs loc = Some Dir then Inl OSError
             else if open_ok t then Inr loc
             else Inl OSError))"

text \<open>\<^verbatim>\<open>os.remove(path)\<close>: only a regular file can be removed.\<close>

definition os_remove :: "transfer \<Rightarrow> files \<Rightarrow> string list \<Rightarrow> string \<Rightarrow> exn + files" where
  "os_remove t fs cwd path =
     (if CHR 0x00 \<in> set path then Inl ValueError
      else
        (case resolve fs cwd path of
           None \<Rightarrow> Inl OSError
         | Some loc \<Rightarrow>
             (case fs loc of
                Some (File content) \<Rightarrow>
                  if remove_ok t then Inr (fs(loc := None)) else Inl OSError
              | _ \<Rightarrow> Inl OSError)))"

text \<open>The body of the \<^verbatim>\<open>try\<close> (lines 134-150): the exception that left it, if any,
  and the files afterwards. Opening the file empties it; the bytes written are in it
  when the block is left. The progress bar itself is taken not to raise.\<close>

definition attempt_download ::
  "transfer \<Rightarrow> files \<Rightarrow> string list \<Rightarrow> string \<Rightarrow> exn option \<times> files" where
  "attempt_download t fs cwd local_filepath =
     (if \<not> connect_ok t then (Some RequestException, fs)
      else if \<not> status_ok t then (Some RequestException, fs)
      else
        (case total_size_bytes (content_length t) of
           None \<Rightarrow> (Some ValueError, fs)
         | Some total_size \<Rightarrow>
             (case py_open_wb t fs cwd local_filepath of
                Inl e \<Rightarrow> (Some e, fs)
              | Inr loc \<Rightarrow>
                  (case write_chunks (stream t) [] 0 of
                     (e, written, n) \<Rightarrow> (e, fs(loc \<mapsto> File written))))))"

text \<open>
  \<^verbatim>\<open>download_file\<close>: \<^verbatim>\<open>os.makedirs\<close> and \<^verbatim>\<open>os.path.join\<close> stand before the
  \<^verbatim>\<open>try\<close>, so what they raise leaves the function; so does what \<^verbatim>\<open>os.remove\<close>
  raises inside the first handler. The second handler returns \<^verbatim>\<open>False\<close> and removes
  nothing.
\<close>

definition download_file ::
  "transfer \<Rightarrow> files \<Rightarrow> string list \<Rightarrow> json \<Rightarrow> json \<Rightarrow> (exn + bool) \<times> files" where
  "download_file t fs cwd download_url local_filename =
     (case os_makedirs t fs cwd DOWNLOAD_DIRECTORY of
        Inl e \<Rightarrow> (Inl e, fs)
      | Inr fs1 \<Rightarrow>
          (case local_filename of
             JStr name \<Rightarrow>
               (let local_filepath = path_join DOWNLOAD_DIRECTORY name
                in case attempt_download t fs1 cwd local_filepath of
                     (None, fs2) \<Rightarrow> (Inr True, fs2)
                   | (Some e, fs2) \<Rightarrow>
                       if e = RequestException then
                         (if os_path_exists fs2 cwd local_filepath then
                            (case os_remove t fs2 cwd local_filepath of
                               Inl e' \<Rightarrow> (Inl e', fs2)
                             | Inr fs3 \<Rightarrow> (Inr False, fs3))
                          else (Inr False, fs2))
                       else (Inr False, fs2))
           | _ \<Rightarrow> (Inl TypeError, fs1)))"

section \<open>ManifestExtractor: \<^verbatim>\<open>parse_wabbajack_json\<close>\<close>

text \<open>The dict appended to \<^verbatim>\<open>downloadable_files\<close>; its values are whatever the manifest
  holds.\<close>

record downloadable =
  game_domain :: json
  mod_id :: json
  file_id :: json
  filename :: json

text \<open>What \<^verbatim>\<open>open\<close> and \<^verbatim>\<open>json.load\<close> give for the manifest path.\<close>

datatype file_read = FileNotFound | DecodeError | ReadError | Loaded json

text \<open>\<^verbatim>\<open>v.lower()\<close> on a loaded value: only a string has the method.\<close>

fun py_lower_of :: "json \<Rightarrow> exn + string" where
  "py_lower_of (JStr s) = Inr (py_lower s)"
| "py_lower_of _ = Inl AttributeError"

text \<open>
  The condition of lines 223-226,
  \<^verbatim>\<open>filter_lower not in filename.lower() and filter_lower not in game_name.lower()\<close>,
  where \<^verbatim>\<open>and\<close> evaluates its right side only if the left side is true.
\<close>

definition filter_rejects :: "string \<Rightarrow> json \<Rightarrow> json \<Rightarrow> exn + bool" where
  "filter_rejects filter_lower fname game_name =
     (case py_lower_of fname of
        Inl e \<Rightarrow> Inl e
      | Inr fl \<Rightarrow>
          if \<not> py_in_str filter_lower fl then
            (case py_lower_of game_name of
               Inl e \<Rightarrow> Inl e
             | Inr gl \<Rightarrow> Inr (\<not> py_in_str filter_lower gl))
          else Inr False)"

text \<open>
  The body of \<^verbatim>\<open>for archive in archives\<close> (lines 208-234): \<^term>\<open>Inr None\<close> where the
  entry is passed over, \<^term>\<open>Inr (Some d)\<close> where \<^verbatim>\<open>d\<close> is appended, \<^term>\<open>Inl e\<close>
  where the body raises.
\<close>

definition archive_step :: "string option \<Rightarrow> json \<Rightarrow> exn + downloadable option" where
  "archive_step filter_lower archive =
     (case py_get_default archive ''State'' (JObj []) of
        Inl e \<Rightarrow> Inl e
      | Inr state \<Rightarrow>
          (case py_get_default state ''$type'' (JStr []) of
             Inl e \<Rightarrow> Inl e
           | Inr state_type \<Rightarrow>
               (case py_str_in ''NexusDownloader'' state_type of
                  Inl e \<Rightarrow> Inl e
                | Inr False \<Rightarrow> Inr None
                | Inr True \<Rightarrow>
                    (case (py_get state ''ModID'', py_get state ''FileID'',
                           py_get state ''GameName'', py_get archive ''Name'') of
                       (Inr m, Inr f, Inr game_name, Inr fname) \<Rightarrow>
                         if \<not> (truthy m \<and> truthy f \<and> truthy game_name \<and> truthy fname)
                         then Inr None
                         else
                           (let item = \<lparr>game_domain = game_name, mod_id = m,
                                        file_id = f, filename = fname\<rparr>
                            in case filter_lower of
                                 None \<Rightarrow> Inr (Some item)
                               | Some fl \<Rightarrow>
                                   if fl = [] then Inr (Some item)
                                   else
                                     (case filter_rejects fl fname game_name of
                                        Inl e \<Rightarrow> Inl e
                                      | Inr True \<Rightarrow> Inr None
                                      | Inr False \<Rightarrow> Inr (Some item)))
                     | _ \<Rightarrow> Inl AttributeError))))"

text \<open>The loop itself, with \<^verbatim>\<open>downloadable_files\<close> as accumulator.\<close>

fun extract_loop ::
  "string option \<Rightarrow> json list \<Rightarrow> downloadable list \<Rightarrow> exn + downloadable list" where
  "extract_loop filter_lower [] downloadable_files = Inr downloadable_files"
| "extract_loop filter_lower (archive # archives) downloadable_files =
     (case archive_step filter_lower archive of
        Inl e \<Rightarrow> Inl e
      | Inr None \<Rightarrow> extract_loop filter_lower archives downloadable_files
      | Inr (Some item) \<Rightarrow> extract_loop filter_lower archives (downloadable_files @ [item]))"

text \<open>
  What \<^verbatim>\<open>len(archives)\<close> and \<^verbatim>\<open>for archive in archives\<close> accept: a list, a dict
  (its keys) and a string (its characters); a number or a boolean is a \<^verbatim>\<open>TypeError\<close>.
\<close>

fun py_iter :: "json \<Rightarrow> exn + json list" where
  "py_iter (JArr xs) = Inr xs"
| "py_iter (JObj kvs) = Inr (map (\<lambda>kv. JStr (fst kv)) kvs)"
| "py_iter (JStr s) = Inr (map (\<lambda>c. JStr [c]) s)"
| "py_iter _ = Inl TypeError"

text \<open>\<^verbatim>\<open>filter_lower = filter_string.lower() if filter_string else None\<close>\<close>

definition filter_lower_of :: "string option \<Rightarrow> string option" where
  "filter_lower_of filter_string =
     (case filter_string of
        None \<Rightarrow> None
      | Some s \<Rightarrow> if s \<noteq> [] then Some (py_lower s) else None)"

text \<open>
  The three handlers around \<^verbatim>\<open>open\<close> and \<^verbatim>\<open>json.load\<close> return the empty list;
  everything after them is outside any \<^verbatim>\<open>try\<close>.
\<close>

definition parse_wabbajack_json ::
  "file_read \<Rightarrow> string option \<Rightarrow> exn + downloadable list" where
  "parse_wabbajack_json file filter_string =
     (case file of
        Loaded data \<Rightarrow>
          (case py_get data ''Archives'' of
             Inl e \<Rightarrow> Inl e
           | Inr JNull \<Rightarrow> Inr []
           | Inr archives \<Rightarrow>
               (case py_iter archives of
                  Inl e \<Rightarrow> Inl e
                | Inr entries \<Rightarrow> extract_loop (filter_lower_of filter_string) entries []))
      | _ \<Rightarrow> Inr [])"

section \<open>Orchestrator: the \<^verbatim>\<open>__main__\<close> block\<close>

text \<open>
  What the run prints that the properties below speak of: a prompt of \<^verbatim>\<open>input\<close>, the
  line \<^verbatim>\<open>--- Initiating Download for: {filename} ---\<close>, and the request for a download
  link with its domain, ids and key.
\<close>

datatype event =
    Prompted
  | Initiated json
  | Requested string json json string

text \<open>
  The surroundings of a run: the lines still waiting on standard input, the answers to
  the successive link requests, the behaviour of the successive calls of
  \<^verbatim>\<open>download_file\<close>, the file tree with the location of the working directory, and
  what has been printed so far.
\<close>

record world =
  stdin :: "string list"
  api :: "nat \<Rightarrow> http_result"
  api_calls :: nat
  net :: "nat \<Rightarrow> transfer"
  net_calls :: nat
  disk :: files
  cwd :: "string list"
  trace :: "event list"

text \<open>\<^verbatim>\<open>input(prompt)\<close>: the next line, or \<^verbatim>\<open>EOFError\<close> once standard input is used
  up.\<close>

definition py_input :: "world \<Rightarrow> (exn + string) \<times> world" where
  "py_input w =
     (case stdin w of
        [] \<Rightarrow> (Inl EOFError, w\<lparr>trace := trace w @ [Prompted]\<rparr>)
      | line # rest \<Rightarrow> (Inr line, w\<lparr>stdin := rest, trace := trace w @ [Prompted]\<rparr>))"

text \<open>
  \<^verbatim>\<open>get_nexus_download_url\<close> in a run. \<^verbatim>\<open>normalize_game_domain(game_id)\<close> stands
  before the \<^verbatim>\<open>try\<close> and calls \<^verbatim>\<open>.lower()\<close>, so a game id that is no string
  raises \<^verbatim>\<open>AttributeError\<close> out of the function.
\<close>

definition get_nexus_download_url ::
  "json \<Rightarrow> json \<Rightarrow> json \<Rightarrow> string \<Rightarrow> world \<Rightarrow> (exn + json) \<times> world" where
  "get_nexus_download_url game_id m f api_key w =
     (case game_id of
        JStr g \<Rightarrow>
          (let game_domain_for_api = normalize_game_domain g;
               reply = api w (api_calls w);
               w' = w\<lparr>api_calls := Suc (api_calls w),
                      trace := trace w @ [Requested game_domain_for_api m f api_key]\<rparr>
           in (Inr (link_from_reply reply), w'))
      | _ \<Rightarrow> (Inl AttributeError, w))"

text \<open>\<^verbatim>\<open>download_file\<close> in a run.\<close>

definition download_file_in ::
  "json \<Rightarrow> json \<Rightarrow> world \<Rightarrow> (exn + bool) \<times> world" where
  "download_file_in download_url local_filename w =
     (case download_file (net w (net_calls w)) (disk w) (cwd w) download_url
             local_filename of
        (r, fs') \<Rightarrow> (r, w\<lparr>net_calls := Suc (net_calls w), disk := fs'\<rparr>))"

text \<open>The body of \<^verbatim>\<open>for item_to_download in selected_items\<close> (lines 299-317).\<close>

definition process_item :: "string \<Rightarrow> downloadable \<Rightarrow> world \<Rightarrow> (exn + unit) \<times> world" where
  "process_item api_key item w =
     (case get_nexus_download_url (game_domain item) (mod_id item) (file_id item) api_key
             (w\<lparr>trace := trace w @ [Initiated (filename item)]\<rparr>) of
        (Inl e, w1) \<Rightarrow> (Inl e, w1)
      | (Inr nexus_download_uri, w1) \<Rightarrow>
          if truthy nexus_download_uri then
            (case download_file_in nexus_download_uri (filename item) w1 of
               (Inl e, w2) \<Rightarrow> (Inl e, w2)
             | (Inr download_success, w2) \<Rightarrow> (Inr (), w2))
          else (Inr (), w1))"

fun run_items :: "string \<Rightarrow> downloadable list \<Rightarrow> world \<Rightarrow> (exn + unit) \<times> world" where
  "run_items api_key [] w = (Inr (), w)"
| "run_items api_key (item # items) w =
     (case process_item api_key item w of
        (Inl e, w1) \<Rightarrow> (Inl e, w1)
      | (Inr u, w1) \<Rightarrow> run_items api_key items w1)"

text \<open>
  The loop \<^verbatim>\<open>while True\<close> of manifest mode (lines 281-327). Both handlers lead to the
  next round, so an exception of \<^verbatim>\<open>input\<close>, of \<^verbatim>\<open>int\<close> or of the downloads is
  followed by a new prompt. \<^const>\<open>None\<close> is a loop that never ends.
\<close>

partial_function (option) selection_loop ::
  "downloadable list \<Rightarrow> string \<Rightarrow> world \<Rightarrow> world option" where
  "selection_loop downloadables api_key w =
     (case py_input w of
        (Inl e, w1) \<Rightarrow> selection_loop downloadables api_key w1
      | (Inr line, w1) \<Rightarrow>
          (let selection = py_lower (py_strip line)
           in if selection = ''q'' then Some w1
              else if selection = ''all'' then
                (case run_items api_key downloadables w1 of
                   (r, w2) \<Rightarrow> selection_loop downloadables api_key w2)
              else
                (case py_int selection of
                   None \<Rightarrow> selection_loop downloadables api_key w1
                 | Some n \<Rightarrow>
                     if 0 \<le> n - 1 \<and> n - 1 < int (length downloadables) then
                       (case run_items api_key [downloadables ! nat (n - 1)] w1 of
                          (Inl e, w2) \<Rightarrow> selection_loop downloadables api_key w2
                        | (Inr u, w2) \<Rightarrow> Some w2)
                     else selection_loop downloadables api_key w1)))"

declare selection_loop.simps [code]

text \<open>What \<^verbatim>\<open>open(filename)\<close> and \<^verbatim>\<open>f.read()\<close> give for the key file.\<close>

datatype key_read = KeyNotFound | KeyReadError | KeyText string

text \<open>\<^verbatim>\<open>load_api_key\<close>: the stripped text, or \<^verbatim>\<open>None\<close> from each of the three handlers
  (the \<^verbatim>\<open>ValueError\<close> of an empty key is raised and caught inside).\<close>

definition load_api_key :: "key_read \<Rightarrow> string option" where
  "load_api_key file =
     (case file of
        KeyText text \<Rightarrow>
          (let api_key = py_strip text in if api_key = [] then None else Some api_key)
      | _ \<Rightarrow> None)"

text \<open>
  The argument of \<^verbatim>\<open>exit\<close> and the status the process ends with: an integer is the
  status, any other object is printed to standard error and the status is 1.
\<close>

datatype exit_arg = ExitInt int | ExitMsg string

fun exit_status :: "exit_arg \<Rightarrow> int" where
  "exit_status (ExitInt n) = n mod 256"
| "exit_status (ExitMsg s) = 1"

text \<open>An exception that nothing catches ends the process with status 1; a script that
  runs to its end ends it with status 0.\<close>

definition uncaught_status :: int where
  "uncaught_status = 1"

definition normal_status :: int where
  "normal_status = 0"

text \<open>Manual mode (lines 331-360).\<close>

definition manual_mode :: "string \<Rightarrow> world \<Rightarrow> int \<times> world" where
  "manual_mode api_key w =
     (case py_input w of
        (Inl e, w1) \<Rightarrow> (uncaught_status, w1)
      | (Inr l1, w1) \<Rightarrow>
     (case py_input w1 of
        (Inl e, w2) \<Rightarrow> (uncaught_status, w2)
      | (Inr l2, w2) \<Rightarrow>
     (case py_input w2 of
        (Inl e, w3) \<Rightarrow> (uncaught_status, w3)
      | (Inr l3, w3) \<Rightarrow>
     (case py_input w3 of
        (Inl e, w4) \<Rightarrow> (uncaught_status, w4)
      | (Inr l4, w4) \<Rightarrow>
          (let game_id = py_strip l1; mod_id_str = py_strip l2;
               file_id_str = py_strip l3; fname = py_strip l4
           in case py_int mod_id_str of
                None \<Rightarrow> (exit_status (ExitInt 1), w4)
              | Some m \<Rightarrow>
                  (case py_int file_id_str of
                     None \<Rightarrow> (exit_status (ExitInt 1), w4)
                   | Some f \<Rightarrow>
                       (case get_nexus_download_url (JStr game_id) (JInt m) (JInt f) api_key w4 of
                          (Inl e, w5) \<Rightarrow> (uncaught_status, w5)
                        | (Inr nexus_download_uri, w5) \<Rightarrow>
                            if truthy nexus_download_uri then
                              (case download_file_in nexus_download_uri (JStr fname) w5 of
                                 (Inl e, w6) \<Rightarrow> (uncaught_status, w6)
                               | (Inr download_success, w6) \<Rightarrow> (normal_status, w6))
                            else (normal_status, w5))))))))"

text \<open>Manifest mode (lines 270-327).\<close>

definition manifest_mode ::
  "string \<Rightarrow> file_read \<Rightarrow> string option \<Rightarrow> world \<Rightarrow> (int \<times> world) option" where
  "manifest_mode api_key manifest filter_string w =
     (case parse_wabbajack_json manifest filter_string of
        Inl e \<Rightarrow> Some (uncaught_status, w)
      | Inr downloadables \<Rightarrow>
          if downloadables = [] then Some (exit_status (ExitInt 0), w)
          else map_option (\<lambda>w'. (normal_status, w'))
                 (selection_loop downloadables api_key w))"

text \<open>The command line after \<^verbatim>\<open>argparse\<close>, with what the two files named on it hold.\<close>

record invocation =
  key_file :: key_read
  wabbajack_json :: "string option"
  filter_arg :: "string option"
  manifest_file :: file_read

text \<open>
  What \<^verbatim>\<open>parser.parse_args()\<close> (line 259) does with the command line: it ends the
  process itself with status 2 on a command line it rejects and with status 0 after
  \<^verbatim>\<open>--help\<close>, or it returns the arguments.
\<close>

datatype cmdline = UsageError | HelpRequested | Parsed invocation

definition argparse_error_status :: int where
  "argparse_error_status = 2"

definition argparse_help_status :: int where
  "argparse_help_status = 0"

text \<open>
  The whole run: the exit status and the surroundings at the end, or \<^const>\<open>None\<close> for
  a run that never ends. \<^verbatim>\<open>os.path.abspath(DOWNLOAD_DIRECTORY)\<close> at line 266 asks for
  the working directory, which is an uncaught \<^verbatim>\<open>OSError\<close> if that directory is gone.
  \<^verbatim>\<open>if args.wabbajack_json\<close> is false for a missing and for an empty argument.
  Printing is taken not to raise, and a signal that ends the process is outside the
  model.
\<close>

definition main :: "cmdline \<Rightarrow> world \<Rightarrow> (int \<times> world) option" where
  "main cmd w =
     (case cmd of
        UsageError \<Rightarrow> Some (argparse_error_status, w)
      | HelpRequested \<Rightarrow> Some (argparse_help_status, w)
      | Parsed args \<Rightarrow>
          (case load_api_key (key_file args) of
             None \<Rightarrow>
               Some (exit_status
                       (ExitMsg ''Exiting. Please ensure your API key is correctly set up.''),
                     w)
           | Some api_key \<Rightarrow>
               if disk w (cwd w) \<noteq> Some Dir then Some (uncaught_status, w)
               else
                 (case wabbajack_json args of
                    None \<Rightarrow> Some (manual_mode api_key w)
                  | Some path \<Rightarrow>
                      if path = [] then Some (manual_mode api_key w)
                      else manifest_mode api_key (manifest_file args) (filter_arg args) w)))"

section \<open>Vocabulary of the properties\<close>

subsection \<open>Candidate links\<close>

text \<open>
  A candidate that the selection loop stops at: it has a \<^verbatim>\<open>URI\<close> and a \<^verbatim>\<open>name\<close>, and
  its URI holds \<^verbatim>\<open>filedelivery.nexusmods.com\<close>, or its short name is
  \<^verbatim>\<open>Direct Download\<close>, or its name is \<^verbatim>\<open>Primary Download\<close>.
\<close>

fun matches_preference :: "json \<Rightarrow> bool" where
  "matches_preference (JObj kvs) =
     (case (map_of kvs ''URI'', map_of kvs ''name'') of
        (Some uri, Some name) \<Rightarrow>
           py_str_in ''filedelivery.nexusmods.com'' uri = Inr True
           \<or> py_eq_str (case map_of kvs ''short_name'' of None \<Rightarrow> JNull | Some v \<Rightarrow> v)
                ''Direct Download''
           \<or> py_eq_str name ''Primary Download''
      | _ \<Rightarrow> False)"
| "matches_preference _ = False"

fun candidate_uri :: "json \<Rightarrow> json" where
  "candidate_uri (JObj kvs) = (case map_of kvs ''URI'' of None \<Rightarrow> JNull | Some uri \<Rightarrow> uri)"
| "candidate_uri _ = JNull"

text \<open>A candidate whose \<^verbatim>\<open>URI\<close>, where it has one, is a string, as a CandidateLink's is.\<close>

fun uri_is_text :: "json \<Rightarrow> bool" where
  "uri_is_text (JObj kvs) =
     (case map_of kvs ''URI'' of Some (JStr u) \<Rightarrow> True | Some _ \<Rightarrow> False | None \<Rightarrow> True)"
| "uri_is_text _ = True"

text \<open>The three candidates of the selection example, and a successful JSON answer.\<close>

definition cand_other :: json where
  "cand_other = JObj [(''URI'', JStr ''https://cdn.example/x''), (''name'', JStr ''Other'')]"

definition cand_mirror :: json where
  "cand_mirror =
     JObj [(''URI'', JStr ''https://filedelivery.nexusmods.com/y''), (''name'', JStr ''Mirror'')]"

definition cand_primary :: json where
  "cand_primary =
     JObj [(''URI'', JStr ''https://cdn.example/z''), (''name'', JStr ''Primary Download'')]"

definition json_reply :: "json \<Rightarrow> http_result" where
  "json_reply v =
     Response \<lparr>resp_ok = True, content_type = Some ''application/json'', body_json = Some v\<rparr>"

text \<open>A response that passes the status and content-type checks of lines 70-86.\<close>

definition json_success :: "response \<Rightarrow> bool" where
  "json_success r =
     (resp_ok r
      \<and> py_in_str ''application/json''
            (py_lower (case content_type r of None \<Rightarrow> [] | Some c \<Rightarrow> c)))"

subsection \<open>Manifest entries\<close>

definition field :: "json \<Rightarrow> string \<Rightarrow> json" where
  "field d k = (case py_get d k of Inr v \<Rightarrow> v | Inl e \<Rightarrow> JNull)"

definition entry_state :: "json \<Rightarrow> json" where
  "entry_state archive =
     (case py_get_default archive ''State'' (JObj []) of Inr s \<Rightarrow> s | Inl e \<Rightarrow> JObj [])"

definition entry_type :: "json \<Rightarrow> json" where
  "entry_type archive =
     (case py_get_default (entry_state archive) ''$type'' (JStr []) of
        Inr t \<Rightarrow> t
      | Inl e \<Rightarrow> JStr [])"

fun is_object :: "json \<Rightarrow> bool" where
  "is_object (JObj kvs) = True"
| "is_object _ = False"

fun is_text :: "json \<Rightarrow> bool" where
  "is_text (JStr s) = True"
| "is_text _ = False"

definition text_of :: "json \<Rightarrow> string" where
  "text_of v = (case v of JStr s \<Rightarrow> s | _ \<Rightarrow> [])"

text \<open>
  The manifest document contract for one entry: the archive is an object, its
  \<^verbatim>\<open>State\<close> (an empty object if absent) is an object, and the \<^verbatim>\<open>$type\<close> tag (the
  empty string if absent) is a string.
\<close>

definition entry_ok :: "json \<Rightarrow> bool" where
  "entry_ok archive =
     (is_object archive \<and> is_object (entry_state archive) \<and> is_text (entry_type archive))"

definition nexus_tagged :: "json \<Rightarrow> bool" where
  "nexus_tagged archive = (py_str_in ''NexusDownloader'' (entry_type archive) = Inr True)"

text \<open>
  A qualifying entry: tagged \<^verbatim>\<open>NexusDownloader\<close>, with \<^verbatim>\<open>ModID\<close>, \<^verbatim>\<open>FileID\<close>,
  \<^verbatim>\<open>GameName\<close> and \<^verbatim>\<open>Name\<close> present and non-empty, where non-empty is what line 218
  tests: the value is true in Python's sense (so 0 and the empty string are empty).
\<close>

definition qualifies :: "json \<Rightarrow> bool" where
  "qualifies archive =
     (nexus_tagged archive
      \<and> truthy (field (entry_state archive) ''ModID'')
      \<and> truthy (field (entry_state archive) ''FileID'')
      \<and> truthy (field (entry_state archive) ''GameName'')
      \<and> truthy (field archive ''Name''))"

definition request_of :: "json \<Rightarrow> downloadable" where
  "request_of archive =
     \<lparr>game_domain = field (entry_state archive) ''GameName'',
      mod_id = field (entry_state archive) ''ModID'',
      file_id = field (entry_state archive) ''FileID'',
      filename = field archive ''Name''\<rparr>"

definition names_are_text :: "json \<Rightarrow> bool" where
  "names_are_text archive =
     (is_text (field (entry_state archive) ''GameName'') \<and> is_text (field archive ''Name''))"


text \<open>A manifest for the examples: one entry with everything, one without \<^verbatim>\<open>FileID\<close>,
  one of another downloader, one with \<^verbatim>\<open>ModID\<close> 0.\<close>

definition nexus_entry :: "string \<Rightarrow> (string \<times> json) list \<Rightarrow> json" where
  "nexus_entry name state_fields =
     JObj [(''Name'', JStr name),
           (''State'',
            JObj ((''$type'', JStr ''NexusDownloader, Wabbajack.Lib'') # state_fields))]"

definition entry_full :: json where
  "entry_full =
     nexus_entry ''SkyUI.7z''
       [(''ModID'', JInt 12604), (''FileID'', JInt 35407), (''GameName'', JStr ''SkyrimSE'')]"

definition entry_no_file_id :: json where
  "entry_no_file_id =
     nexus_entry ''Broken.7z'' [(''ModID'', JInt 5), (''GameName'', JStr ''SkyrimSE'')]"

definition entry_http :: json where
  "entry_http =
     JObj [(''Name'', JStr ''Tool.zip''),
           (''State'', JObj [(''$type'', JStr ''HttpDownloader, Wabbajack.Lib''),
                             (''Url'', JStr ''https://example.org/tool.zip'')])]"

definition entry_zero_mod :: json where
  "entry_zero_mod =
     nexus_entry ''Zero.7z''
       [(''ModID'', JInt 0), (''FileID'', JInt 9), (''GameName'', JStr ''fallout4'')]"

definition example_manifest :: "(string \<times> json) list" where
  "example_manifest =
     [(''Name'', JStr ''Example list''),
      (''Archives'', JArr [entry_full, entry_no_file_id, entry_http, entry_full, entry_zero_mod])]"

subsection \<open>Surroundings for the examples\<close>

text \<open>A download in which nothing fails and nothing arrives, and a run with given input
  lines in which every link request gets the same answer and every download behaves the
  same.\<close>

definition quiet_transfer :: transfer where
  "quiet_transfer =
     \<lparr>makedirs_ok = True, connect_ok = True, status_ok = True, content_length = None,
      open_ok = True, stream = [], remove_ok = True\<rparr>"

text \<open>A file tree that holds the root directory only, which is the working directory
  of the examples.\<close>

definition root_only :: files where
  "root_only = [[] \<mapsto> Dir]"

definition example_world :: "string list \<Rightarrow> http_result \<Rightarrow> transfer \<Rightarrow> world" where
  "example_world input_lines reply t =
     \<lparr>stdin = input_lines, api = (\<lambda>n. reply), api_calls = 0, net = (\<lambda>n. t),
      net_calls = 0, disk = root_only, cwd = [], trace = []\<rparr>"

subsection \<open>Streams\<close>

text \<open>The bytes a step of the stream delivers.\<close>

fun chunk_bytes :: "stream_step \<Rightarrow> byte list" where
  "chunk_bytes (Chunk chunk write_ok) = chunk"
| "chunk_bytes StreamError = []"

text \<open>A step at which a chunk arrives and its write succeeds.\<close>

fun delivered :: "stream_step \<Rightarrow> bool" where
  "delivered (Chunk chunk write_ok) = write_ok"
| "delivered StreamError = False"

subsection \<open>The selection loop and the exit status\<close>

text \<open>The selection as the loop reads it from an input line.\<close>

definition selection_of :: "string \<Rightarrow> string" where
  "selection_of line = py_lower (py_strip line)"

text \<open>A selection that is a number between 1 and the number of listed files, and the
  one item it picks.\<close>

definition valid_index :: "downloadable list \<Rightarrow> string \<Rightarrow> bool" where
  "valid_index downloadables selection =
     (case py_int selection of
        None \<Rightarrow> False
      | Some n \<Rightarrow> 1 \<le> n \<and> n \<le> int (length downloadables))"

definition chosen :: "downloadable list \<Rightarrow> string \<Rightarrow> downloadable list" where
  "chosen downloadables selection =
     (case py_int selection of
        None \<Rightarrow> []
      | Some n \<Rightarrow> [downloadables ! nat (n - 1)])"

text \<open>The surroundings after a round that read \<^verbatim>\<open>all\<close>: the line is consumed and the
  items have been gone through.\<close>

definition after_all :: "downloadable list \<Rightarrow> string \<Rightarrow> world \<Rightarrow> world" where
  "after_all downloadables api_key w =
     snd (run_items api_key downloadables (snd (py_input w)))"

text \<open>
  A round that ends the loop leaving the surroundings \<^verbatim>\<open>w'\<close>: its line is \<^verbatim>\<open>q\<close>, or it
  is a valid index whose one item was gone through without an exception.
\<close>

definition ends_round :: "downloadable list \<Rightarrow> string \<Rightarrow> string \<Rightarrow> world \<Rightarrow> bool" where
  "ends_round downloadables api_key line w' =
     (selection_of line = ''q''
      \<or> (valid_index downloadables (selection_of line)
          \<and> (\<exists>w1. run_items api_key (chosen downloadables (selection_of line)) w1
                    = (Inr (), w'))))"

text \<open>\<^verbatim>\<open>if args.wabbajack_json\<close>\<close>

definition manifest_selected :: "invocation \<Rightarrow> bool" where
  "manifest_selected args =
     (case wabbajack_json args of None \<Rightarrow> False | Some path \<Rightarrow> path \<noteq> [])"

text \<open>Command lines and manifests for the examples.\<close>

definition no_key_args :: invocation where
  "no_key_args =
     \<lparr>key_file = KeyNotFound, wabbajack_json = None, filter_arg = None,
      manifest_file = FileNotFound\<rparr>"

definition empty_key_args :: invocation where
  "empty_key_args =
     \<lparr>key_file = KeyText ''  '', wabbajack_json = None, filter_arg = None,
      manifest_file = FileNotFound\<rparr>"

definition manual_args :: invocation where
  "manual_args =
     \<lparr>key_file = KeyText ''abc123 '', wabbajack_json = None, filter_arg = None,
      manifest_file = FileNotFound\<rparr>"

definition manifest_args :: "json \<Rightarrow> invocation" where
  "manifest_args doc =
     \<lparr>key_file = KeyText ''abc123 '', wabbajack_json = Some ''modlist.json'',
      filter_arg = None, manifest_file = Loaded doc\<rparr>"

definition other_manifest :: json where
  "other_manifest = JObj [(''Archives'', JArr [entry_http])]"

section \<open>Properties of the string primitives\<close>

lemma py_lower_char_idem: "py_lower_char (py_lower_char c) = py_lower_char c"
proof -
  have lt: "(of_char c :: nat) < 256" by simp
  show ?thesis
    using lt by (auto simp: py_lower_char_def Let_def)
qed

lemma py_lower_idem: "py_lower (py_lower s) = py_lower s"
  by (simp add: py_lower_def py_lower_char_idem)

lemma py_in_str_iff_sublist: "py_in_str sub s \<longleftrightarrow> sublist sub s"
  by (induction s) (auto simp: sublist_Cons_right)

section \<open>DomainNormalizer\<close>

lemma lookup_alias_mappings:
  "lookup_alias mappings s =
     (if s = ''skyrimse'' \<or> s = ''skyrimspecialedition'' then Some ''skyrimspecialedition''
      else if s = ''skyrim'' \<or> s = ''skyrimlegendaryedition'' then Some ''skyrim''
      else if s = ''fallout4'' then Some ''fallout4''
      else if s = ''falloutnewvegas'' \<or> s = ''falloutnv'' then Some ''falloutnv''
      else None)"
  by (simp add: mappings_def)

lemma all_aliases_eq:
  "all_aliases = {''skyrimse'', ''skyrimspecialedition'', ''skyrim'',
     ''skyrimlegendaryedition'', ''fallout4'', ''falloutnewvegas'', ''falloutnv''}"
  by (auto simp: all_aliases_def mappings_def)

lemma canonical_slugs_eq:
  "canonical_slugs = {''skyrimspecialedition'', ''skyrim'', ''fallout4'', ''falloutnv''}"
  by (auto simp: canonical_slugs_def mappings_def)

lemma lookup_alias_None_iff: "lookup_alias mappings s = None \<longleftrightarrow> s \<notin> all_aliases"
  by (simp add: lookup_alias_mappings all_aliases_eq)

lemma normalize_canonical:
  "c \<in> canonical_slugs \<Longrightarrow> normalize_game_domain c = c"
  by (auto simp: canonical_slugs_eq normalize_game_domain_def py_lower_def
      py_lower_char_def lookup_alias_mappings)

lemma normalize_unmapped:
  "py_lower s \<notin> all_aliases \<Longrightarrow> normalize_game_domain s = py_lower s"
  by (simp add: normalize_game_domain_def lookup_alias_None_iff [symmetric])

lemma normalize_cases:
  "normalize_game_domain s \<in> canonical_slugs
   \<or> (normalize_game_domain s = py_lower s \<and> py_lower s \<notin> all_aliases)"
  by (auto simp: normalize_game_domain_def Let_def lookup_alias_mappings
      canonical_slugs_eq all_aliases_eq split: option.splits if_splits)

lemma normalize_idem:
  "normalize_game_domain (normalize_game_domain s) = normalize_game_domain s"
proof -
  consider (canon) "normalize_game_domain s \<in> canonical_slugs"
    | (fallback) "normalize_game_domain s = py_lower s" "py_lower s \<notin> all_aliases"
    using normalize_cases by blast
  then show ?thesis
  proof cases
    case canon
    then show ?thesis by (rule normalize_canonical)
  next
    case fallback
    have "py_lower (py_lower s) \<notin> all_aliases"
      using fallback(2) by (simp add: py_lower_idem)
    then have "normalize_game_domain (py_lower s) = py_lower (py_lower s)"
      by (rule normalize_unmapped)
    then show ?thesis
      using fallback(1) by (simp add: py_lower_idem)
  qed
qed

text \<open>
  C6. \<^verbatim>\<open>normalize_game_domain\<close> has a result for every string and no error result (the
  model's function is a plain function on strings, as the source has no failing step on
  a \<^verbatim>\<open>str\<close>). It is idempotent, it returns every canonical slug of the table
  unchanged, \<^verbatim>\<open>"SkyrimSE"\<close> goes to \<^verbatim>\<open>"skyrimspecialedition"\<close>, \<^verbatim>\<open>"unknown_game"\<close>
  stays as it is, and an input whose lower-cased form is no alias is returned
  lower-cased.
\<close>

theorem normalize_game_domain_idempotent:
  "normalize_game_domain (normalize_game_domain s) = normalize_game_domain s
   \<and> (c \<in> canonical_slugs \<longrightarrow> normalize_game_domain c = c)
   \<and> normalize_game_domain ''SkyrimSE'' = ''skyrimspecialedition''
   \<and> normalize_game_domain ''unknown_game'' = ''unknown_game''
   \<and> (py_lower s \<notin> all_aliases \<longrightarrow> normalize_game_domain s = py_lower s)"
proof -
  have a: "normalize_game_domain ''SkyrimSE'' = ''skyrimspecialedition''"
    by code_simp
  have b: "normalize_game_domain ''unknown_game'' = ''unknown_game''"
    by code_simp
  show ?thesis
    using a b normalize_idem normalize_canonical normalize_unmapped by blast
qed

theorem normalize_game_domain_idempotent_witness:
  "''fallout4'' \<in> canonical_slugs
   \<and> py_lower ''Morrowind'' \<notin> all_aliases
   \<and> normalize_game_domain ''fallout4'' = ''fallout4''
   \<and> normalize_game_domain ''Morrowind'' = ''morrowind''"
proof -
  have h1: "''fallout4'' \<in> canonical_slugs"
    by (simp add: canonical_slugs_eq)
  have l: "py_lower ''Morrowind'' = ''morrowind''"
    by code_simp
  have h2: "py_lower ''Morrowind'' \<notin> all_aliases"
    by (simp add: l all_aliases_eq)
  show ?thesis
    using normalize_game_domain_idempotent [of "''Morrowind''" "''fallout4''"] h1 h2 l
    by simp
qed

section \<open>LinkResolver\<close>

lemma select_link_find:
  "list_all uri_is_text links \<Longrightarrow>
   select_link links = Inr (map_option candidate_uri (find matches_preference links))"
proof (induction links rule: select_link.induct)
  case (2 kvs rest)
  then show ?case
    by (auto split: option.splits json.splits sum.splits bool.splits)
qed simp_all

lemma link_from_reply_list:
  assumes "json_success r" and "body_json r = Some (JArr links)" and "links \<noteq> []"
  shows "link_from_reply (Response r) =
           (case select_link links of
              Inl e \<Rightarrow> JNull
            | Inr (Some uri) \<Rightarrow> uri
            | Inr None \<Rightarrow>
                if truthy (first_valid_link links) then first_valid_link links else JNull)"
  using assms
  by (simp add: link_from_reply_def json_success_def Let_def
      split: sum.splits option.splits)

lemma link_from_reply_no_list:
  "\<not> (\<exists>links. body_json r = Some (JArr links) \<and> links \<noteq> []) \<Longrightarrow>
   link_from_reply (Response r) = JNull"
  by (auto simp: link_from_reply_def split: option.splits json.splits)

lemma get_nexus_download_url_text:
  "fst (get_nexus_download_url (JStr g) m f api_key w)
     = Inr (link_from_reply (api w (api_calls w)))"
  by (simp add: get_nexus_download_url_def Let_def)

lemma json_reply_success:
  "json_success \<lparr>resp_ok = True, content_type = Some ''application/json'', body_json = b\<rparr>"
proof -
  have "py_in_str ''application/json'' (py_lower ''application/json'')"
    by code_simp
  then show ?thesis
    by (simp add: json_success_def)
qed

lemma link_from_json_reply:
  "list_all uri_is_text links \<Longrightarrow> find matches_preference links = Some l \<Longrightarrow>
   link_from_reply (json_reply (JArr links)) = candidate_uri l"
proof -
  assume t: "list_all uri_is_text links" and f: "find matches_preference links = Some l"
  from f have ne: "links \<noteq> []" by auto
  show ?thesis
    unfolding json_reply_def
    by (subst link_from_reply_list [OF json_reply_success _ ne])
       (simp_all add: select_link_find [OF t] f)
qed

lemma candidates_text:
  "uri_is_text cand_other" "uri_is_text cand_mirror" "uri_is_text cand_primary"
  by (simp_all add: cand_other_def cand_mirror_def cand_primary_def)

lemma candidates_preference:
  "\<not> matches_preference cand_other" "matches_preference cand_mirror"
  "matches_preference cand_primary"
  by (simp_all add: cand_other_def cand_mirror_def cand_primary_def)

lemma candidates_uri:
  "candidate_uri cand_mirror = JStr ''https://filedelivery.nexusmods.com/y''"
  "candidate_uri cand_primary = JStr ''https://cdn.example/z''"
  by (simp_all add: cand_mirror_def cand_primary_def)

lemma example_world_api: "api (example_world ls reply t) n = reply"
  by (simp add: example_world_def)

text \<open>
  C1, as the code has it. When the API answers with a JSON list whose candidates have
  string URIs, \<^verbatim>\<open>get_nexus_download_url\<close> returns the URI of the first candidate, in list
  order, that matches either criterion: a URI holding \<^verbatim>\<open>filedelivery.nexusmods.com\<close>, or
  the short name \<^verbatim>\<open>Direct Download\<close>, or the name \<^verbatim>\<open>Primary Download\<close>. A filedelivery
  candidate wins over a name-matched one only where it stands earlier in the list: of
  the six orders of the three example candidates, the three with the mirror before the
  primary give the filedelivery URI and the other three give the primary's URI.
\<close>

theorem link_resolver_first_match:
  assumes "api w (api_calls w) = Response r"
    and "json_success r"
    and "body_json r = Some (JArr links)"
    and "list_all uri_is_text links"
    and "find matches_preference links = Some l"
  shows "fst (get_nexus_download_url (JStr g) m f api_key w) = Inr (candidate_uri l)
    \<and> map (\<lambda>order. link_from_reply (json_reply (JArr order)))
        [[cand_other, cand_mirror, cand_primary],
         [cand_mirror, cand_other, cand_primary],
         [cand_mirror, cand_primary, cand_other],
         [cand_other, cand_primary, cand_mirror],
         [cand_primary, cand_other, cand_mirror],
         [cand_primary, cand_mirror, cand_other]]
      = [JStr ''https://filedelivery.nexusmods.com/y'',
         JStr ''https://filedelivery.nexusmods.com/y'',
         JStr ''https://filedelivery.nexusmods.com/y'',
         JStr ''https://cdn.example/z'',
         JStr ''https://cdn.example/z'',
         JStr ''https://cdn.example/z'']"
proof -
  from assms(5) have ne: "links \<noteq> []" by auto
  have "link_from_reply (Response r) = candidate_uri l"
    by (simp add: link_from_reply_list [OF assms(2) assms(3) ne]
        select_link_find [OF assms(4)] assms(5))
  then have general: "fst (get_nexus_download_url (JStr g) m f api_key w) = Inr (candidate_uri l)"
    by (simp add: get_nexus_download_url_text assms(1))
  have orders:
    "link_from_reply (json_reply (JArr [cand_other, cand_mirror, cand_primary]))
       = JStr ''https://filedelivery.nexusmods.com/y''"
    "link_from_reply (json_reply (JArr [cand_mirror, cand_other, cand_primary]))
       = JStr ''https://filedelivery.nexusmods.com/y''"
    "link_from_reply (json_reply (JArr [cand_mirror, cand_primary, cand_other]))
       = JStr ''https://filedelivery.nexusmods.com/y''"
    "link_from_reply (json_reply (JArr [cand_other, cand_primary, cand_mirror]))
       = JStr ''https://cdn.example/z''"
    "link_from_reply (json_reply (JArr [cand_primary, cand_other, cand_mirror]))
       = JStr ''https://cdn.example/z''"
    "link_from_reply (json_reply (JArr [cand_primary, cand_mirror, cand_other]))
       = JStr ''https://cdn.example/z''"
    by (simp_all add: link_from_json_reply [where l = cand_mirror]
        link_from_json_reply [where l = cand_primary]
        candidates_text candidates_preference candidates_uri)
  show ?thesis
    using general orders by simp
qed

theorem link_resolver_first_match_witness:
  "find matches_preference [cand_other, cand_mirror, cand_primary] = Some cand_mirror
   \<and> fst (get_nexus_download_url (JStr ''skyrimse'') (JInt 1) (JInt 2) ''key''
            (example_world [] (json_reply (JArr [cand_other, cand_mirror, cand_primary]))
               quiet_transfer))
       = Inr (JStr ''https://filedelivery.nexusmods.com/y'')"
proof -
  let ?links = "[cand_other, cand_mirror, cand_primary]"
  let ?r = "\<lparr>resp_ok = True, content_type = Some ''application/json'',
             body_json = Some (JArr ?links)\<rparr>"
  let ?w = "example_world [] (json_reply (JArr ?links)) quiet_transfer"
  have h1: "api ?w (api_calls ?w) = Response ?r"
    by (simp add: example_world_api json_reply_def)
  have h2: "json_success ?r"
    by (rule json_reply_success)
  have h3: "body_json ?r = Some (JArr ?links)"
    by simp
  have h4: "list_all uri_is_text ?links"
    by (simp add: candidates_text)
  have h5: "find matches_preference ?links = Some cand_mirror"
    by (simp add: candidates_preference)
  show ?thesis
    using link_resolver_first_match [OF h1 h2 h3 h4 h5] h5
    by (simp add: candidates_uri)
qed

text \<open>
  C1 as stated fails: with the \<^verbatim>\<open>Primary Download\<close> candidate first in the list, the
  resolver returns its URI and not the filedelivery one that follows.
\<close>

theorem link_resolver_priority_counterexample:
  "fst (get_nexus_download_url (JStr ''skyrimse'') (JInt 1) (JInt 2) ''key''
          (example_world [] (json_reply (JArr [cand_primary, cand_mirror, cand_other]))
             quiet_transfer))
     = Inr (JStr ''https://cdn.example/z'')
   \<and> fst (get_nexus_download_url (JStr ''skyrimse'') (JInt 1) (JInt 2) ''key''
          (example_world [] (json_reply (JArr [cand_primary, cand_mirror, cand_other]))
             quiet_transfer))
     \<noteq> Inr (JStr ''https://filedelivery.nexusmods.com/y'')"
proof -
  have "link_from_reply (json_reply (JArr [cand_primary, cand_mirror, cand_other]))
          = JStr ''https://cdn.example/z''"
    by (simp add: link_from_json_reply [where l = cand_primary]
        candidates_text candidates_preference candidates_uri)
  then show ?thesis
    by (simp add: get_nexus_download_url_text example_world_api)
qed

text \<open>
  C5. When the API's answer has a JSON body that is not a non-empty list (the empty array
  among them), \<^verbatim>\<open>get_nexus_download_url\<close> returns \<^verbatim>\<open>None\<close>: no candidate URI.
\<close>

theorem link_resolver_no_links:
  assumes "api w (api_calls w) = Response r"
    and "\<not> (\<exists>links. body_json r = Some (JArr links) \<and> links \<noteq> [])"
  shows "fst (get_nexus_download_url (JStr g) m f api_key w) = Inr JNull"
  by (simp add: get_nexus_download_url_text assms(1) link_from_reply_no_list [OF assms(2)])

theorem link_resolver_no_links_witness:
  "fst (get_nexus_download_url (JStr ''skyrimse'') (JInt 1) (JInt 2) ''key''
          (example_world [] (json_reply (JArr [])) quiet_transfer))
     = Inr JNull"
proof -
  let ?r = "\<lparr>resp_ok = True, content_type = Some ''application/json'',
             body_json = Some (JArr [])\<rparr>"
  let ?w = "example_world [] (json_reply (JArr [])) quiet_transfer"
  have h1: "api ?w (api_calls ?w) = Response ?r"
    by (simp add: example_world_api json_reply_def)
  have h2: "\<not> (\<exists>links. body_json ?r = Some (JArr links) \<and> links \<noteq> [])"
    by simp
  show ?thesis
    using link_resolver_no_links [OF h1 h2] .
qed

section \<open>ManifestExtractor\<close>

lemma get_state: "is_object a \<Longrightarrow> py_get_default a ''State'' (JObj []) = Inr (entry_state a)"
  by (cases a) (simp_all add: entry_state_def)

lemma get_type:
  "is_object (entry_state a) \<Longrightarrow>
   py_get_default (entry_state a) ''$type'' (JStr []) = Inr (entry_type a)"
  by (cases "entry_state a") (simp_all add: entry_type_def)

lemma get_field: "is_object d \<Longrightarrow> py_get d k = Inr (field d k)"
  by (cases d) (simp_all add: field_def)

lemma str_in_text: "is_text v \<Longrightarrow> py_str_in s v = Inr (py_in_str s (text_of v))"
  by (cases v) (simp_all add: text_of_def)


lemma archive_step_ok:
  assumes "entry_ok archive"
  shows "archive_step fl archive =
     (if \<not> qualifies archive then Inr None
      else case fl of
             None \<Rightarrow> Inr (Some (request_of archive))
           | Some f \<Rightarrow>
               if f = [] then Inr (Some (request_of archive))
               else (case filter_rejects f (field archive ''Name'')
                            (field (entry_state archive) ''GameName'') of
                       Inl e \<Rightarrow> Inl e
                     | Inr True \<Rightarrow> Inr None
                     | Inr False \<Rightarrow> Inr (Some (request_of archive))))"
proof -
  have o: "is_object archive" and so: "is_object (entry_state archive)"
    and tt: "is_text (entry_type archive)"
    using assms by (simp_all add: entry_ok_def)
  show ?thesis
    by (simp add: archive_step_def get_state [OF o] get_type [OF so] get_field [OF o]
        get_field [OF so] str_in_text [OF tt] qualifies_def nexus_tagged_def request_of_def
        Let_def split: bool.splits option.splits sum.splits)
qed





lemma extract_loop_steps:
  "\<forall>a \<in> set archives. archive_step fl a = Inr (if P a then Some (f a) else None) \<Longrightarrow>
   extract_loop fl archives acc = Inr (acc @ map f (filter P archives))"
  by (induction archives arbitrary: acc) auto

lemma extract_loop_append:
  "extract_loop fl (xs @ ys) acc =
     (case extract_loop fl xs acc of Inl e \<Rightarrow> Inl e | Inr acc' \<Rightarrow> extract_loop fl ys acc')"
  by (induction xs arbitrary: acc) (auto split: sum.splits option.splits)

lemma parse_loaded_archives:
  "map_of doc ''Archives'' = Some (JArr archives) \<Longrightarrow>
   parse_wabbajack_json (Loaded (JObj doc)) filter_string
     = extract_loop (filter_lower_of filter_string) archives []"
  by (simp add: parse_wabbajack_json_def)

lemma example_archives:
  "map_of example_manifest ''Archives''
     = Some (JArr [entry_full, entry_no_file_id, entry_http, entry_full, entry_zero_mod])"
  by (simp add: example_manifest_def)

lemma example_entries_ok:
  "\<forall>a \<in> set [entry_full, entry_no_file_id, entry_http, entry_full, entry_zero_mod].
     entry_ok a \<and> (qualifies a \<longrightarrow> names_are_text a)"
  by code_simp

lemma example_request:
  "request_of entry_full
     = \<lparr>game_domain = JStr ''SkyrimSE'', mod_id = JInt 12604, file_id = JInt 35407,
        filename = JStr ''SkyUI.7z''\<rparr>"
  by code_simp

text \<open>Outside the manifest's shape the loop is not total: an entry that is no object
  makes \<^verbatim>\<open>archive.get\<close> raise, and nothing in the function catches it.\<close>

lemma parse_wabbajack_json_entry_no_object:
  "parse_wabbajack_json (Loaded (JObj [(''Archives'', JArr [JInt 5])])) None
     = Inl AttributeError"
  by code_simp

text \<open>
  C2. For a manifest whose \<^verbatim>\<open>Archives\<close> array holds entries of the manifest's shape,
  \<^verbatim>\<open>parse_wabbajack_json\<close> without a filter returns one request for each qualifying
  entry (tag holding \<^verbatim>\<open>NexusDownloader\<close>, the four fields present and non-empty), in
  manifest order, duplicates kept: as many as there are qualifying entries. Every
  request returned has its four fields present and non-empty, and a tagged entry that
  lacks one of them (a missing \<^verbatim>\<open>FileID\<close>, say) gives no request.
\<close>

theorem manifest_extractor_unfiltered:
  assumes "map_of doc ''Archives'' = Some (JArr archives)"
    and "\<forall>a \<in> set archives. entry_ok a"
  shows "\<exists>out. parse_wabbajack_json (Loaded (JObj doc)) None = Inr out
    \<and> out = map request_of (filter qualifies archives)
    \<and> length out = length (filter qualifies archives)
    \<and> (\<forall>d \<in> set out. truthy (game_domain d) \<and> truthy (mod_id d)
                        \<and> truthy (file_id d) \<and> truthy (filename d))
    \<and> (\<forall>a \<in> set archives. nexus_tagged a \<and> \<not> qualifies a \<longrightarrow> request_of a \<notin> set out)"
proof -
  let ?out = "map request_of (filter qualifies archives)"
  have steps: "\<forall>a \<in> set archives.
      archive_step None a = Inr (if qualifies a then Some (request_of a) else None)"
    using assms(2) by (simp add: archive_step_ok)
  have run: "parse_wabbajack_json (Loaded (JObj doc)) None = Inr ?out"
    using extract_loop_steps [OF steps, of "[]"]
    by (simp add: parse_loaded_archives [OF assms(1)] filter_lower_of_def)
  have full: "\<forall>d \<in> set ?out. truthy (game_domain d) \<and> truthy (mod_id d)
                        \<and> truthy (file_id d) \<and> truthy (filename d)"
    by (auto simp: qualifies_def request_of_def)
  have dropped:
    "\<forall>a \<in> set archives. nexus_tagged a \<and> \<not> qualifies a \<longrightarrow> request_of a \<notin> set ?out"
  proof (intro ballI impI notI)
    fix a
    assume na: "nexus_tagged a \<and> \<not> qualifies a" and "request_of a \<in> set ?out"
    with full have "truthy (game_domain (request_of a)) \<and> truthy (mod_id (request_of a))
        \<and> truthy (file_id (request_of a)) \<and> truthy (filename (request_of a))"
      by blast
    with na show False
      by (simp add: qualifies_def request_of_def)
  qed
  show ?thesis
    using run full dropped by simp
qed

theorem manifest_extractor_unfiltered_witness:
  "parse_wabbajack_json (Loaded (JObj example_manifest)) None
     = Inr [request_of entry_full, request_of entry_full]
   \<and> nexus_tagged entry_no_file_id \<and> \<not> qualifies entry_no_file_id
   \<and> request_of entry_no_file_id \<notin> set [request_of entry_full, request_of entry_full]"
proof -
  let ?archives = "[entry_full, entry_no_file_id, entry_http, entry_full, entry_zero_mod]"
  have h2: "\<forall>a \<in> set ?archives. entry_ok a"
    using example_entries_ok by blast
  have q: "filter qualifies ?archives = [entry_full, entry_full]"
    by code_simp
  have t: "nexus_tagged entry_no_file_id \<and> \<not> qualifies entry_no_file_id"
    by code_simp
  from manifest_extractor_unfiltered [OF example_archives h2] obtain out where
    run: "parse_wabbajack_json (Loaded (JObj example_manifest)) None = Inr out"
    and out: "out = map request_of (filter qualifies ?archives)"
    and dropped: "\<forall>a \<in> set ?archives.
        nexus_tagged a \<and> \<not> qualifies a \<longrightarrow> request_of a \<notin> set out"
    by blast
  have two: "out = [request_of entry_full, request_of entry_full]"
    using out unfolding q by simp
  have "request_of entry_no_file_id \<notin> set out"
    using dropped t by simp
  then show ?thesis
    using run two t by simp
qed



text \<open>
  C9. The four fields are tested for truth, not for presence: a tagged entry whose
  \<^verbatim>\<open>ModID\<close> or \<^verbatim>\<open>FileID\<close> is present and 0, or whose \<^verbatim>\<open>GameName\<close> or \<^verbatim>\<open>Name\<close> is
  present and the empty string, is passed over without error, and the list returned is
  the one the manifest without that entry gives.
\<close>

theorem manifest_extractor_truthiness:
  assumes "entry_ok archive" and "nexus_tagged archive"
    and "field (entry_state archive) ''ModID'' = JInt 0
         \<or> field (entry_state archive) ''FileID'' = JInt 0
         \<or> field (entry_state archive) ''GameName'' = JStr []
         \<or> field archive ''Name'' = JStr []"
  shows "archive_step fl archive = Inr None
    \<and> extract_loop fl (before @ archive # after) acc = extract_loop fl (before @ after) acc"
proof -
  have "\<not> qualifies archive"
    using assms(3) by (auto simp: qualifies_def)
  then have step: "archive_step fl archive = Inr None"
    by (simp add: archive_step_ok [OF assms(1)])
  then show ?thesis
    by (simp add: extract_loop_append split: sum.splits)
qed

theorem manifest_extractor_truthiness_witness:
  "entry_ok entry_zero_mod \<and> nexus_tagged entry_zero_mod
   \<and> field (entry_state entry_zero_mod) ''ModID'' = JInt 0
   \<and> archive_step None entry_zero_mod = Inr None
   \<and> extract_loop None ([entry_full] @ entry_zero_mod # [entry_full]) []
       = extract_loop None ([entry_full] @ [entry_full]) []"
proof -
  have h1: "entry_ok entry_zero_mod"
    by code_simp
  have h2: "nexus_tagged entry_zero_mod"
    by code_simp
  have h3: "field (entry_state entry_zero_mod) ''ModID'' = JInt 0"
    by code_simp
  show ?thesis
    using manifest_extractor_truthiness [OF h1 h2 disjI1, OF h3,
        of None "[entry_full]" "[entry_full]" "[]"] h1 h2 h3
    by simp
qed

section \<open>Downloader\<close>

lemma write_chunks_delivered:
  "list_all delivered steps \<Longrightarrow>
   write_chunks steps written n
     = (None, written @ concat (map chunk_bytes steps),
        n + length (concat (map chunk_bytes steps)))"
  by (induction steps written n rule: write_chunks.induct) auto

lemma py_int_zero: "py_int ''0'' = Some 0"
  by code_simp

lemma total_size_zero:
  "h = None \<or> h = Some ''0'' \<Longrightarrow> total_size_bytes h = Some 0"
  by (auto simp: total_size_bytes_def py_int_zero)

lemma walk_remove_file:
  "fs l = Some (File content) \<Longrightarrow> walk (fs(l := None)) loc names = walk fs loc names"
  by (induction names arbitrary: loc) auto

lemma resolve_remove_file:
  "fs l = Some (File content) \<Longrightarrow> resolve (fs(l := None)) wd path = resolve fs wd path"
  by (auto simp: resolve_def walk_remove_file split: list.splits)

lemma example_makedirs:
  "makedirs_ok t \<Longrightarrow>
   os_makedirs t root_only [] DOWNLOAD_DIRECTORY = Inr (root_only([''downloads''] \<mapsto> Dir))"
  by (simp add: os_makedirs_def resolve_def DOWNLOAD_DIRECTORY_def root_only_def)

lemma example_path: "path_join DOWNLOAD_DIRECTORY ''mod.zip'' = ''downloads/mod.zip''"
  by (simp add: path_join_def DOWNLOAD_DIRECTORY_def)

lemma example_resolve:
  "resolve (root_only([''downloads''] \<mapsto> Dir)) [] ''downloads/mod.zip''
     = Some [''downloads'', ''mod.zip'']"
  by (simp add: resolve_def root_only_def)

lemma example_open:
  "open_ok t \<Longrightarrow>
   py_open_wb t (root_only([''downloads''] \<mapsto> Dir)) [] ''downloads/mod.zip''
     = Inr [''downloads'', ''mod.zip'']"
  by (simp add: py_open_wb_def example_resolve) (simp add: root_only_def)

text \<open>Where the transport fails, the target is no directory and \<^verbatim>\<open>os.remove\<close> goes
  through, the function returns \<^verbatim>\<open>False\<close> and nothing is left at the target path.\<close>

lemma download_file_transport_failure:
  assumes mk: "os_makedirs t fs wd DOWNLOAD_DIRECTORY = Inr fs1"
    and att: "attempt_download t fs1 wd (path_join DOWNLOAD_DIRECTORY name)
                = (Some RequestException, fs2)"
    and nodir: "\<forall>loc. resolve fs2 wd (path_join DOWNLOAD_DIRECTORY name) = Some loc
                \<longrightarrow> fs2 loc \<noteq> Some Dir"
    and rm: "remove_ok t"
  shows "fst (download_file t fs wd url (JStr name)) = Inr False
    \<and> \<not> os_path_exists (snd (download_file t fs wd url (JStr name))) wd
          (path_join DOWNLOAD_DIRECTORY name)"
proof (cases "os_path_exists fs2 wd (path_join DOWNLOAD_DIRECTORY name)")
  case False
  then show ?thesis
    using mk att by (simp add: download_file_def Let_def)
next
  case True
  let ?p = "path_join DOWNLOAD_DIRECTORY name"
  from True obtain loc where loc: "resolve fs2 wd ?p = Some loc" and ex: "fs2 loc \<noteq> None"
    by (auto simp: os_path_exists_def split: option.splits)
  from loc nodir have "fs2 loc \<noteq> Some Dir" by blast
  with ex obtain content where c: "fs2 loc = Some (File content)"
    by (cases "fs2 loc") (auto, metis node.exhaust)
  have nul: "CHR 0x00 \<notin> set ?p"
    using loc by (auto simp: resolve_def split: list.splits if_splits)
  have r: "os_remove t fs2 wd ?p = Inr (fs2(loc := None))"
    using loc c rm nul by (simp add: os_remove_def)
  have "\<not> os_path_exists (fs2(loc := None)) wd ?p"
    using loc by (simp add: os_path_exists_def resolve_remove_file [where fs = fs2 and l = loc, OF c])
  then show ?thesis
    using mk att True r by (simp add: download_file_def Let_def)
qed

text \<open>
  C8. In a download where nothing fails (the download directory can be made, the target
  file can be opened, every chunk arrives and is written), a declared content length of
  0, or none at all, changes nothing: every chunk received is written, the file holds
  all the bytes of the body in order, the count of the progress bar is their number, and
  the function returns \<^verbatim>\<open>True\<close>.
\<close>

theorem downloader_writes_all_bytes:
  assumes "os_makedirs t fs wd DOWNLOAD_DIRECTORY = Inr fs1"
    and "py_open_wb t fs1 wd (path_join DOWNLOAD_DIRECTORY name) = Inr loc"
    and "connect_ok t" and "status_ok t"
    and "content_length t = None \<or> content_length t = Some ''0''"
    and "list_all delivered (stream t)"
  shows "download_file t fs wd url (JStr name)
           = (Inr True, fs1(loc \<mapsto> File (concat (map chunk_bytes (stream t)))))
    \<and> write_chunks (stream t) [] 0
           = (None, concat (map chunk_bytes (stream t)),
              length (concat (map chunk_bytes (stream t))))"
proof -
  have loop: "write_chunks (stream t) [] 0
           = (None, concat (map chunk_bytes (stream t)),
              length (concat (map chunk_bytes (stream t))))"
    using write_chunks_delivered [OF assms(6), of "[]" 0] by simp
  have "attempt_download t fs1 wd (path_join DOWNLOAD_DIRECTORY name)
          = (None, fs1(loc \<mapsto> File (concat (map chunk_bytes (stream t)))))"
    using assms(2,3,4) total_size_zero [OF assms(5)]
    by (simp add: attempt_download_def loop)
  then show ?thesis
    using assms(1) loop by (simp add: download_file_def Let_def)
qed

theorem downloader_writes_all_bytes_witness:
  "download_file
     (quiet_transfer\<lparr>content_length := Some ''0'',
                     stream := [Chunk [1, 2, 3] True, Chunk [] True, Chunk [4] True]\<rparr>)
     root_only [] (JStr ''https://cdn.example/z'') (JStr ''mod.zip'')
   = (Inr True,
      root_only([''downloads''] \<mapsto> Dir, [''downloads'', ''mod.zip''] \<mapsto> File [1, 2, 3, 4]))"
proof -
  let ?t = "quiet_transfer\<lparr>content_length := Some ''0'',
                     stream := [Chunk [1, 2, 3] True, Chunk [] True, Chunk [4] True]\<rparr>"
  have flags: "makedirs_ok ?t" "open_ok ?t" "connect_ok ?t" "status_ok ?t"
    by (simp_all add: quiet_transfer_def)
  have h1: "os_makedirs ?t root_only [] DOWNLOAD_DIRECTORY
              = Inr (root_only([''downloads''] \<mapsto> Dir))"
    using flags(1) by (rule example_makedirs)
  have h2: "py_open_wb ?t (root_only([''downloads''] \<mapsto> Dir)) []
              (path_join DOWNLOAD_DIRECTORY ''mod.zip'') = Inr [''downloads'', ''mod.zip'']"
    using example_open [OF flags(2)] by (simp add: example_path)
  have h5: "content_length ?t = None \<or> content_length ?t = Some ''0''"
    by simp
  have h6: "list_all delivered (stream ?t)"
    by simp
  show ?thesis
    using downloader_writes_all_bytes [OF h1 h2 flags(3) flags(4) h5 h6,
        of "JStr ''https://cdn.example/z''"]
    by simp
qed

text \<open>
  C3 at two inputs the code can meet. When \<^verbatim>\<open>f.write\<close> raises \<^verbatim>\<open>OSError\<close> on the
  second chunk, the second handler returns \<^verbatim>\<open>False\<close> and the file with the first
  chunk stays. When the transport fails after the first chunk and \<^verbatim>\<open>os.remove\<close>
  raises, the \<^verbatim>\<open>OSError\<close> leaves \<^verbatim>\<open>download_file\<close> and the file stays.
\<close>

theorem downloader_partial_file_remains:
  "download_file (quiet_transfer\<lparr>stream := [Chunk [1, 2, 3] True, Chunk [4, 5] False]\<rparr>)
     root_only [] (JStr ''https://cdn.example/z'') (JStr ''mod.zip'')
   = (Inr False,
      root_only([''downloads''] \<mapsto> Dir, [''downloads'', ''mod.zip''] \<mapsto> File [1, 2, 3]))
   \<and> download_file (quiet_transfer\<lparr>stream := [Chunk [1, 2, 3] True, StreamError],
                                   remove_ok := False\<rparr>)
     root_only [] (JStr ''https://cdn.example/z'') (JStr ''mod.zip'')
   = (Inl OSError,
      root_only([''downloads''] \<mapsto> Dir, [''downloads'', ''mod.zip''] \<mapsto> File [1, 2, 3]))"
proof -
  let ?fs1 = "root_only([''downloads''] \<mapsto> Dir)"
  let ?fs2 = "?fs1([''downloads'', ''mod.zip''] \<mapsto> File [1, 2, 3])"
  have q: "makedirs_ok quiet_transfer" "open_ok quiet_transfer" "connect_ok quiet_transfer"
    "status_ok quiet_transfer" "content_length quiet_transfer = None"
    "remove_ok quiet_transfer"
    by (simp_all add: quiet_transfer_def)
  have r2: "resolve ?fs2 [] ''downloads/mod.zip'' = Some [''downloads'', ''mod.zip'']"
    by (simp add: resolve_def root_only_def)
  have a: "attempt_download (quiet_transfer\<lparr>stream := s\<rparr>) ?fs1 [] ''downloads/mod.zip''
             = (case write_chunks s [] 0 of
                  (e, written, n) \<Rightarrow> (e, ?fs1([''downloads'', ''mod.zip''] \<mapsto> File written)))"
    for s
    by (simp add: attempt_download_def q total_size_bytes_def example_open)
  have b: "attempt_download (quiet_transfer\<lparr>stream := s, remove_ok := False\<rparr>) ?fs1 []
               ''downloads/mod.zip''
             = (case write_chunks s [] 0 of
                  (e, written, n) \<Rightarrow> (e, ?fs1([''downloads'', ''mod.zip''] \<mapsto> File written)))"
    for s
    by (simp add: attempt_download_def q total_size_bytes_def example_open)
  have first: "download_file
       (quiet_transfer\<lparr>stream := [Chunk [1, 2, 3] True, Chunk [4, 5] False]\<rparr>)
       root_only [] (JStr ''https://cdn.example/z'') (JStr ''mod.zip'') = (Inr False, ?fs2)"
    by (simp add: download_file_def example_makedirs q example_path a)
  have second: "download_file
       (quiet_transfer\<lparr>stream := [Chunk [1, 2, 3] True, StreamError], remove_ok := False\<rparr>)
       root_only [] (JStr ''https://cdn.example/z'') (JStr ''mod.zip'') = (Inl OSError, ?fs2)"
    by (simp add: download_file_def example_makedirs q example_path b os_path_exists_def r2
        os_remove_def)
  show ?thesis
    using first second by simp
qed

section \<open>Orchestrator\<close>

lemma py_input_cases:
  "stdin w = [] \<Longrightarrow> py_input w = (Inl EOFError, w\<lparr>trace := trace w @ [Prompted]\<rparr>)"
  "stdin w = line # rest \<Longrightarrow>
     py_input w = (Inr line, w\<lparr>stdin := rest, trace := trace w @ [Prompted]\<rparr>)"
  by (simp_all add: py_input_def)

lemma py_input_trace: "trace (snd (py_input w)) = trace w @ [Prompted]"
  by (simp add: py_input_def split: list.splits)

lemma get_url_stdin: "stdin (snd (get_nexus_download_url g m f k w)) = stdin w"
  by (simp add: get_nexus_download_url_def Let_def split: json.splits)

lemma get_url_trace: "\<exists>tr. trace (snd (get_nexus_download_url g m f k w)) = trace w @ tr"
  by (simp add: get_nexus_download_url_def Let_def split: json.splits)

lemma download_in_stdin: "stdin (snd (download_file_in u n w)) = stdin w"
  by (simp add: download_file_in_def split: prod.splits)

lemma download_in_trace: "trace (snd (download_file_in u n w)) = trace w"
  by (simp add: download_file_in_def split: prod.splits)

lemma process_item_stdin: "stdin (snd (process_item k item w)) = stdin w"
proof -
  let ?w0 = "w\<lparr>trace := trace w @ [Initiated (filename item)]\<rparr>"
  let ?g = "get_nexus_download_url (game_domain item) (mod_id item) (file_id item) k ?w0"
  have g: "stdin (snd ?g) = stdin w"
    by (simp add: get_url_stdin)
  show ?thesis
  proof (cases ?g)
    case (Pair r w1)
    with g have w1: "stdin w1 = stdin w" by simp
    show ?thesis
    proof (cases r)
      case (Inl e)
      with Pair w1 show ?thesis by (simp add: process_item_def)
    next
      case (Inr uri)
      have "stdin (snd (download_file_in uri (filename item) w1)) = stdin w"
        by (simp add: download_in_stdin w1)
      with Pair Inr w1 show ?thesis
        by (auto simp: process_item_def split: prod.splits sum.splits)
    qed
  qed
qed

lemma process_item_trace: "\<exists>tr. trace (snd (process_item k item w)) = trace w @ tr"
proof -
  let ?w0 = "w\<lparr>trace := trace w @ [Initiated (filename item)]\<rparr>"
  let ?g = "get_nexus_download_url (game_domain item) (mod_id item) (file_id item) k ?w0"
  obtain tr where g: "trace (snd ?g) = trace w @ Initiated (filename item) # tr"
    using get_url_trace [of "game_domain item" "mod_id item" "file_id item" k ?w0] by auto
  show ?thesis
  proof (cases ?g)
    case (Pair r w1)
    with g have w1: "trace w1 = trace w @ Initiated (filename item) # tr" by simp
    show ?thesis
    proof (cases r)
      case (Inl e)
      with Pair w1 show ?thesis by (simp add: process_item_def)
    next
      case (Inr uri)
      have "trace (snd (download_file_in uri (filename item) w1)) = trace w1"
        by (simp add: download_in_trace)
      with Pair Inr w1 show ?thesis
        by (auto simp: process_item_def split: prod.splits sum.splits)
    qed
  qed
qed

lemma run_items_stdin: "stdin (snd (run_items k items w)) = stdin w"
proof (induction items arbitrary: w)
  case Nil
  then show ?case by simp
next
  case (Cons item items)
  show ?case
  proof (cases "process_item k item w")
    case (Pair r w1)
    have "stdin w1 = stdin w"
      using process_item_stdin [of k item w] Pair by simp
    with Pair Cons show ?thesis
      by (cases r) simp_all
  qed
qed

lemma run_items_trace: "\<exists>tr. trace (snd (run_items k items w)) = trace w @ tr"
proof (induction items arbitrary: w)
  case Nil
  then show ?case by simp
next
  case (Cons item items)
  show ?case
  proof (cases "process_item k item w")
    case (Pair r w1)
    obtain tr1 where t1: "trace w1 = trace w @ tr1"
      using process_item_trace [of k item w] Pair by auto
    obtain tr2 where t2: "trace (snd (run_items k items w1)) = trace w1 @ tr2"
      using Cons by blast
    from Pair t1 t2 show ?thesis
      by (cases r) simp_all
  qed
qed

lemma selection_loop_all:
  assumes "stdin w = line # rest" and "selection_of line = ''all''"
  shows "selection_loop ds k w = selection_loop ds k (after_all ds k w)"
  using assms
  by (subst selection_loop.simps)
     (simp add: py_input_cases after_all_def selection_of_def split: prod.splits)

lemma after_all_stdin: "stdin w = line # rest \<Longrightarrow> stdin (after_all ds k w) = rest"
  by (simp add: after_all_def run_items_stdin py_input_cases)


lemma selection_loop_prompts:
  assumes "selection_loop ds k w = Some w'"
  shows "\<exists>tr. trace w' = trace w @ Prompted # tr"
proof (rule selection_loop.raw_induct
    [where P = "\<lambda>ds k w w'. \<exists>tr. trace w' = trace w @ Prompted # tr", OF _ assms],
    goal_cases)
  case (1 loop ds k w w')
  note IH = 1(1) and body = 1(2)
  show ?case
  proof (cases "stdin w")
    case Nil
    with body have "loop ds k (w\<lparr>trace := trace w @ [Prompted]\<rparr>) = Some w'"
      by (simp add: py_input_cases)
    from IH [OF this] show ?thesis by auto
  next
    case (Cons line rest)
    let ?w1 = "w\<lparr>stdin := rest, trace := trace w @ [Prompted]\<rparr>"
    have inp: "py_input w = (Inr line, ?w1)"
      using Cons by (simp add: py_input_cases)
    have again: "loop ds k w2 = Some w' \<Longrightarrow> trace w2 = trace ?w1 @ tr2 \<Longrightarrow> ?thesis" for w2 tr2
      using IH [of ds k w2 w'] by auto
    have again1: "loop ds k ?w1 = Some w' \<Longrightarrow> ?thesis"
      using again [of ?w1 "[]"] by simp
    show ?thesis
    proof (cases "py_lower (py_strip line) = ''q''")
      case True
      with body inp have "w' = ?w1" by simp
      then show ?thesis by simp
    next
      case notq: False
      show ?thesis
      proof (cases "py_lower (py_strip line) = ''all''")
        case True
        obtain r w2 where r: "run_items k ds ?w1 = (r, w2)" by force
        obtain tr2 where "trace w2 = trace ?w1 @ tr2"
          using run_items_trace [of k ds ?w1] r by auto
        moreover have "loop ds k w2 = Some w'"
          using body inp notq True r by simp
        ultimately show ?thesis by (rule again [rotated])
      next
        case notall: False
        show ?thesis
        proof (cases "py_int (py_lower (py_strip line))")
          case None
          with body inp notq notall have "loop ds k ?w1 = Some w'" by simp
          then show ?thesis by (rule again1)
        next
          case (Some n)
          show ?thesis
          proof (cases "0 \<le> n - 1 \<and> n - 1 < int (length ds)")
            case False
            with body inp notq notall Some have "loop ds k ?w1 = Some w'"
              by (auto split: if_splits)
            then show ?thesis by (rule again1)
          next
            case True
            obtain r w2 where r: "run_items k [ds ! nat (n - 1)] ?w1 = (r, w2)" by force
            obtain tr2 where t2: "trace w2 = trace ?w1 @ tr2"
              using run_items_trace [of k "[ds ! nat (n - 1)]" ?w1] r by auto
            show ?thesis
            proof (cases r)
              case (Inl e)
              with body inp notq notall Some True r have "loop ds k w2 = Some w'" by simp
              then show ?thesis using t2 by (rule again)
            next
              case (Inr u)
              with body inp notq notall Some True r have "w' = w2" by simp
              with t2 show ?thesis by simp
            qed
          qed
        qed
      qed
    qed
  qed
qed

lemma selection_loop_ends:
  assumes "selection_loop ds k w = Some w'"
  shows "\<exists>before line after. stdin w = before @ line # after \<and> stdin w' = after
      \<and> ends_round ds k line w'"
proof (rule selection_loop.raw_induct
    [where P = "\<lambda>ds k w w'. \<exists>before line after.
        stdin w = before @ line # after \<and> stdin w' = after \<and> ends_round ds k line w'",
      OF _ assms],
    goal_cases)
  case (1 loop ds k w w')
  note IH = 1(1) and body = 1(2)
  show ?case
  proof (cases "stdin w")
    case Nil
    with body have "loop ds k (w\<lparr>trace := trace w @ [Prompted]\<rparr>) = Some w'"
      by (simp add: py_input_cases)
    from IH [OF this] Nil show ?thesis by simp
  next
    case (Cons line rest)
    let ?w1 = "w\<lparr>stdin := rest, trace := trace w @ [Prompted]\<rparr>"
    have inp: "py_input w = (Inr line, ?w1)"
      using Cons by (simp add: py_input_cases)
    have again: ?thesis if "loop ds k w2 = Some w'" and "stdin w2 = rest" for w2
    proof -
      from IH [OF that(1)] that(2) obtain before l after
        where "rest = before @ l # after" "stdin w' = after" "ends_round ds k l w'"
        by auto
      then have "stdin w = (line # before) @ l # after \<and> stdin w' = after \<and> ends_round ds k l w'"
        using Cons by simp
      then show ?thesis by blast
    qed
    have last: ?thesis if "stdin w' = rest" and "ends_round ds k line w'"
    proof -
      have "stdin w = [] @ line # rest \<and> stdin w' = rest \<and> ends_round ds k line w'"
        using that Cons by simp
      then show ?thesis by blast
    qed
    show ?thesis
    proof (cases "py_lower (py_strip line) = ''q''")
      case True
      with body inp have "w' = ?w1" by simp
      then show ?thesis
        using True by (intro last) (simp_all add: ends_round_def selection_of_def)
    next
      case notq: False
      show ?thesis
      proof (cases "py_lower (py_strip line) = ''all''")
        case True
        obtain r w2 where r: "run_items k ds ?w1 = (r, w2)" by force
        have "stdin w2 = rest"
          using run_items_stdin [of k ds ?w1] r by simp
        moreover have "loop ds k w2 = Some w'"
          using body inp notq True r by simp
        ultimately show ?thesis by (intro again)
      next
        case notall: False
        show ?thesis
        proof (cases "py_int (py_lower (py_strip line))")
          case None
          with body inp notq notall have "loop ds k ?w1 = Some w'" by simp
          then show ?thesis by (rule again) simp
        next
          case (Some n)
          show ?thesis
          proof (cases "0 \<le> n - 1 \<and> n - 1 < int (length ds)")
            case False
            with body inp notq notall Some have "loop ds k ?w1 = Some w'"
              by (auto split: if_splits)
            then show ?thesis by (rule again) simp
          next
            case True
            obtain r w2 where r: "run_items k [ds ! nat (n - 1)] ?w1 = (r, w2)" by force
            have s2: "stdin w2 = rest"
              using run_items_stdin [of k "[ds ! nat (n - 1)]" ?w1] r by simp
            show ?thesis
            proof (cases r)
              case (Inl e)
              with body inp notq notall Some True r have "loop ds k w2 = Some w'" by simp
              then show ?thesis using s2 by (rule again)
            next
              case (Inr u)
              with body inp notq notall Some True r have w': "w' = w2" by simp
              have "ends_round ds k line w'"
                unfolding ends_round_def selection_of_def valid_index_def chosen_def
                using Some True r Inr w' by auto
              with s2 w' show ?thesis by (intro last) simp_all
            qed
          qed
        qed
      qed
    qed
  qed
qed


lemma selection_loop_q:
  "stdin w = line # rest \<Longrightarrow> selection_of line = ''q'' \<Longrightarrow>
   selection_loop ds k w = Some (w\<lparr>stdin := rest, trace := trace w @ [Prompted]\<rparr>)"
  by (subst selection_loop.simps) (simp add: py_input_cases selection_of_def)

lemma main_no_key:
  "load_api_key (key_file args) = None \<Longrightarrow> main (Parsed args) w = Some (1, w)"
  by (simp add: main_def)

lemma main_no_cwd:
  "load_api_key (key_file args) = Some k \<Longrightarrow> disk w (cwd w) \<noteq> Some Dir \<Longrightarrow>
   main (Parsed args) w = Some (1, w)"
  by (simp add: main_def uncaught_status_def)

lemma main_manual:
  "load_api_key (key_file args) = Some k \<Longrightarrow> disk w (cwd w) = Some Dir \<Longrightarrow>
   \<not> manifest_selected args \<Longrightarrow> main (Parsed args) w = Some (manual_mode k w)"
  by (simp add: main_def manifest_selected_def split: option.splits)

lemma main_manifest:
  "load_api_key (key_file args) = Some k \<Longrightarrow> disk w (cwd w) = Some Dir \<Longrightarrow>
   manifest_selected args \<Longrightarrow>
   main (Parsed args) w = manifest_mode k (manifest_file args) (filter_arg args) w"
  by (auto simp: main_def manifest_selected_def split: option.splits)

lemma manifest_mode_nothing:
  "parse_wabbajack_json m f = Inr [] \<Longrightarrow> manifest_mode k m f w = Some (0, w)"
  by (simp add: manifest_mode_def)

lemma manifest_mode_parsed:
  "parse_wabbajack_json m f = Inr ds \<Longrightarrow> manifest_mode k m f w = Some (c, w') \<Longrightarrow> c = 0"
  by (auto simp: manifest_mode_def normal_status_def split: if_splits)

lemma manual_mode_bad_id:
  assumes "stdin w = l1 # l2 # l3 # l4 # rest"
    and "py_int (py_strip l2) = None \<or> py_int (py_strip l3) = None"
  shows "fst (manual_mode k w) = 1"
  using assms
  by (auto simp: manual_mode_def py_input_def Let_def split: option.splits)

text \<open>Manual mode once the four lines are read and both ids are integers: the status
  is 1 exactly if a link was obtained and \<^verbatim>\<open>download_file\<close> raised.\<close>

lemma manual_mode_ids_ok:
  assumes "stdin w = l1 # l2 # l3 # l4 # rest"
    and "py_int (py_strip l2) = Some m" and "py_int (py_strip l3) = Some f"
  shows "fst (manual_mode k w) =
     (let uri = link_from_reply (api w (api_calls w))
      in if truthy uri then
           (case fst (download_file (net w (net_calls w)) (disk w) (cwd w) uri
                        (JStr (py_strip l4))) of
              Inl e \<Rightarrow> 1
            | Inr b \<Rightarrow> 0)
         else 0)"
  using assms
  by (auto simp: manual_mode_def py_input_def Let_def normal_status_def uncaught_status_def
      get_nexus_download_url_def download_file_in_def split: prod.splits sum.splits)

text \<open>
  C10. In manifest mode a round that reads \<^verbatim>\<open>all\<close> does not end the loop: after the
  items have been gone through the loop goes on with the next input line, and if it ends
  at all, a further prompt has been printed after them. The loop ends only in a round
  whose line is \<^verbatim>\<open>q\<close>, or is a valid index whose single item was gone through without
  an exception.
\<close>

theorem selection_loop_all_reprompts:
  "(stdin w = first # rest \<and> selection_of first = ''all'' \<longrightarrow>
      selection_loop ds k w = selection_loop ds k (after_all ds k w)
      \<and> stdin (after_all ds k w) = rest
      \<and> (\<forall>w'. selection_loop ds k w = Some w' \<longrightarrow>
             (\<exists>tr. trace w' = trace (after_all ds k w) @ Prompted # tr)))
   \<and> (selection_loop ds k w = Some w' \<longrightarrow>
        (\<exists>before line after. stdin w = before @ line # after \<and> stdin w' = after
            \<and> ends_round ds k line w'))"
proof -
  have a: "selection_loop ds k w = selection_loop ds k (after_all ds k w)
      \<and> stdin (after_all ds k w) = rest
      \<and> (\<forall>w'. selection_loop ds k w = Some w' \<longrightarrow>
             (\<exists>tr. trace w' = trace (after_all ds k w) @ Prompted # tr))"
    if s: "stdin w = first # rest" and all: "selection_of first = ''all''"
  proof -
    have e: "selection_loop ds k w = selection_loop ds k (after_all ds k w)"
      using s all by (rule selection_loop_all)
    have "\<exists>tr. trace w' = trace (after_all ds k w) @ Prompted # tr"
      if "selection_loop ds k w = Some w'" for w'
      using that e selection_loop_prompts [of ds k "after_all ds k w" w'] by simp
    then show ?thesis
      using e after_all_stdin [OF s] by blast
  qed
  show ?thesis
    using a selection_loop_ends by blast
qed

theorem selection_loop_all_reprompts_witness:
  "selection_of '' ALL '' = ''all''
   \<and> map_option stdin
        (selection_loop [request_of entry_full] ''key''
           (example_world ['' ALL '', ''1''] (json_reply (JArr [])) quiet_transfer))
       = Some []
   \<and> (\<exists>w'. selection_loop [request_of entry_full] ''key''
              (example_world ['' ALL '', ''1''] (json_reply (JArr [])) quiet_transfer)
            = Some w'
         \<and> (\<exists>tr. trace w'
               = trace (after_all [request_of entry_full] ''key''
                    (example_world ['' ALL '', ''1''] (json_reply (JArr [])) quiet_transfer))
                  @ Prompted # tr)
         \<and> (\<exists>before line after.
               stdin (example_world ['' ALL '', ''1''] (json_reply (JArr [])) quiet_transfer)
                 = before @ line # after
               \<and> stdin w' = after
               \<and> ends_round [request_of entry_full] ''key'' line w'))"
proof -
  let ?ds = "[request_of entry_full]"
  let ?w = "example_world ['' ALL '', ''1''] (json_reply (JArr [])) quiet_transfer"
  have h1: "stdin ?w = '' ALL '' # [''1'']"
    by (simp add: example_world_def)
  have h2: "selection_of '' ALL '' = ''all''"
    by code_simp
  have run: "map_option stdin (selection_loop ?ds ''key'' ?w) = Some []"
    by code_simp
  then obtain w' where w': "selection_loop ?ds ''key'' ?w = Some w'"
    by (cases "selection_loop ?ds ''key'' ?w") auto
  note inst = selection_loop_all_reprompts [of ?w "'' ALL ''" "[''1'']" ?ds "''key''" w']
  have prompted: "\<exists>tr. trace w' = trace (after_all ?ds ''key'' ?w) @ Prompted # tr"
    using inst h1 h2 w' by blast
  have ended: "\<exists>before line after. stdin ?w = before @ line # after \<and> stdin w' = after
      \<and> ends_round ?ds ''key'' line w'"
    using inst w' by blast
  show ?thesis
    using h2 run w' prompted ended by blast
qed

text \<open>
  C4, as the code has it. A missing or empty API key ends the run with status 1,
  because \<^verbatim>\<open>exit\<close> is called with a message. In manifest mode the path with nothing to
  download ends with status 0, and so does every run of the selection loop that ends.
  In manual mode a Mod ID or File ID that is no integer ends the run with status 1; a run
  whose ids parse ends with status 0 if no link is obtained or \<^verbatim>\<open>download_file\<close>
  returns, and with status 1 if \<^verbatim>\<open>download_file\<close> raises. Before all that, a command
  line that \<^verbatim>\<open>argparse\<close> rejects ends the run with status 2, and \<^verbatim>\<open>--help\<close> with
  status 0.
\<close>

theorem exit_status_of_run:
  "main UsageError w = Some (2, w)
   \<and> main HelpRequested w = Some (0, w)
   \<and> (load_api_key (key_file args) = None \<longrightarrow> main (Parsed args) w = Some (1, w))
   \<and> (load_api_key (key_file args) = Some k \<and> disk w (cwd w) = Some Dir
        \<and> manifest_selected args
        \<and> parse_wabbajack_json (manifest_file args) (filter_arg args) = Inr []
        \<longrightarrow> main (Parsed args) w = Some (0, w))
   \<and> (load_api_key (key_file args) = Some k \<and> disk w (cwd w) = Some Dir
        \<and> manifest_selected args
        \<and> parse_wabbajack_json (manifest_file args) (filter_arg args) = Inr ds
        \<and> main (Parsed args) w = Some (c, w')
        \<longrightarrow> c = 0)
   \<and> (load_api_key (key_file args) = Some k \<and> \<not> manifest_selected args
        \<and> stdin w = l1 # l2 # l3 # l4 # rest
        \<and> (py_int (py_strip l2) = None \<or> py_int (py_strip l3) = None)
        \<longrightarrow> map_option fst (main (Parsed args) w) = Some 1)
   \<and> (load_api_key (key_file args) = Some k \<and> disk w (cwd w) = Some Dir
        \<and> \<not> manifest_selected args
        \<and> stdin w = l1 # l2 # l3 # l4 # rest
        \<and> py_int (py_strip l2) = Some m \<and> py_int (py_strip l3) = Some f
        \<and> (\<not> truthy (link_from_reply (api w (api_calls w)))
            \<or> (\<exists>b. fst (download_file (net w (net_calls w)) (disk w) (cwd w)
                           (link_from_reply (api w (api_calls w))) (JStr (py_strip l4)))
                     = Inr b))
        \<longrightarrow> map_option fst (main (Parsed args) w) = Some 0)
   \<and> (load_api_key (key_file args) = Some k \<and> \<not> manifest_selected args
        \<and> stdin w = l1 # l2 # l3 # l4 # rest
        \<and> py_int (py_strip l2) = Some m \<and> py_int (py_strip l3) = Some f
        \<and> truthy (link_from_reply (api w (api_calls w)))
        \<and> fst (download_file (net w (net_calls w)) (disk w) (cwd w)
                  (link_from_reply (api w (api_calls w))) (JStr (py_strip l4)))
              = Inl e
        \<longrightarrow> map_option fst (main (Parsed args) w) = Some 1)"
proof -
  have usage: "main UsageError w = Some (2, w)" "main HelpRequested w = Some (0, w)"
    by (simp_all add: main_def argparse_error_status_def argparse_help_status_def)
  have bad: "map_option fst (main (Parsed args) w) = Some 1"
    if "load_api_key (key_file args) = Some k" and "\<not> manifest_selected args"
      and "stdin w = l1 # l2 # l3 # l4 # rest"
      and "py_int (py_strip l2) = None \<or> py_int (py_strip l3) = None"
  proof (cases "disk w (cwd w) = Some Dir")
    case True
    with that show ?thesis
      by (simp add: main_manual manual_mode_bad_id)
  next
    case False
    with that(1) show ?thesis
      by (simp add: main_no_cwd)
  qed
  have good: "map_option fst (main (Parsed args) w) = Some 0"
    if "load_api_key (key_file args) = Some k" and "disk w (cwd w) = Some Dir"
      and "\<not> manifest_selected args" and "stdin w = l1 # l2 # l3 # l4 # rest"
      and "py_int (py_strip l2) = Some m" and "py_int (py_strip l3) = Some f"
      and "\<not> truthy (link_from_reply (api w (api_calls w)))
            \<or> (\<exists>b. fst (download_file (net w (net_calls w)) (disk w) (cwd w)
                           (link_from_reply (api w (api_calls w))) (JStr (py_strip l4)))
                     = Inr b)"
    using that
    by (auto simp: main_manual manual_mode_ids_ok [where k = k] Let_def)
  have raised: "map_option fst (main (Parsed args) w) = Some 1"
    if "load_api_key (key_file args) = Some k" and "\<not> manifest_selected args"
      and "stdin w = l1 # l2 # l3 # l4 # rest"
      and "py_int (py_strip l2) = Some m" and "py_int (py_strip l3) = Some f"
      and "truthy (link_from_reply (api w (api_calls w)))"
      and "fst (download_file (net w (net_calls w)) (disk w) (cwd w)
                  (link_from_reply (api w (api_calls w))) (JStr (py_strip l4)))
              = Inl e"
  proof (cases "disk w (cwd w) = Some Dir")
    case True
    with that show ?thesis
      by (simp add: main_manual manual_mode_ids_ok [where k = k] Let_def)
  next
    case False
    with that(1) show ?thesis
      by (simp add: main_no_cwd)
  qed
  show ?thesis
    using usage bad good raised
    by (auto simp: main_no_key main_manifest manifest_mode_nothing
        dest: manifest_mode_parsed)
qed

lemma example_key: "load_api_key (key_file manual_args) = Some ''abc123''"
  by code_simp

lemma example_cwd: "disk (example_world ls reply t) (cwd (example_world ls reply t)) = Some Dir"
  by (simp add: example_world_def root_only_def)

theorem exit_status_of_run_witness:
  "map_option fst (main UsageError (example_world [] RequestFailed quiet_transfer)) = Some 2
   \<and> load_api_key (key_file no_key_args) = None
   \<and> map_option fst (main (Parsed no_key_args) (example_world [] RequestFailed quiet_transfer))
       = Some 1
   \<and> parse_wabbajack_json (manifest_file (manifest_args other_manifest)) None = Inr []
   \<and> map_option fst
        (main (Parsed (manifest_args other_manifest))
           (example_world [] RequestFailed quiet_transfer))
       = Some 0
   \<and> map_option fst
        (main (Parsed (manifest_args (JObj example_manifest)))
           (example_world [''all'', ''q''] RequestFailed quiet_transfer))
       = Some 0
   \<and> py_int (py_strip ''x1'') = None
   \<and> map_option fst
        (main (Parsed manual_args)
           (example_world [''skyrimse'', ''12'', ''x1'', ''mod.zip''] RequestFailed
              quiet_transfer))
       = Some 1
   \<and> map_option fst
        (main (Parsed manual_args)
           (example_world [''skyrimse'', ''12'', '' 34'', ''mod.zip'']
              (json_reply (JArr [cand_mirror])) (quiet_transfer\<lparr>stream := [Chunk [1] True]\<rparr>)))
       = Some 0
   \<and> map_option fst
        (main (Parsed manual_args)
           (example_world [''skyrimse'', ''12'', '' 34'', []]
              (json_reply (JArr [cand_mirror])) (quiet_transfer\<lparr>connect_ok := False\<rparr>)))
       = Some 1"
proof -
  let ?w0 = "example_world [] RequestFailed quiet_transfer"
  have r0: "map_option fst (main UsageError ?w0) = Some 2"
    using exit_status_of_run [of ?w0] by simp
  have k0: "load_api_key (key_file no_key_args) = None"
    by code_simp
  have r1: "map_option fst (main (Parsed no_key_args) ?w0) = Some 1"
    using exit_status_of_run [of ?w0 no_key_args] k0 by simp
  have k: "load_api_key (key_file (manifest_args d)) = Some ''abc123''" for d
    using example_key by (simp add: manifest_args_def manual_args_def)
  have sel: "manifest_selected (manifest_args d)" for d
    by (simp add: manifest_selected_def manifest_args_def)
  have p2: "parse_wabbajack_json (manifest_file (manifest_args other_manifest))
              (filter_arg (manifest_args other_manifest)) = Inr []"
    by code_simp
  have r2: "map_option fst (main (Parsed (manifest_args other_manifest)) ?w0) = Some 0"
    using exit_status_of_run [of ?w0 "manifest_args other_manifest" "''abc123''"]
      k sel p2 example_cwd
    by simp
  let ?w5 = "example_world [''all'', ''q''] RequestFailed quiet_transfer"
  have p5: "parse_wabbajack_json (manifest_file (manifest_args (JObj example_manifest)))
              (filter_arg (manifest_args (JObj example_manifest)))
            = Inr [request_of entry_full, request_of entry_full]"
    by code_simp
  have "map_option (\<lambda>outcome. stdin (snd outcome))
          (main (Parsed (manifest_args (JObj example_manifest))) ?w5) = Some []"
    by code_simp
  then obtain c w' where
    e5: "main (Parsed (manifest_args (JObj example_manifest))) ?w5 = Some (c, w')"
    by (cases "main (Parsed (manifest_args (JObj example_manifest))) ?w5") auto
  have "c = 0"
    using exit_status_of_run [of ?w5 "manifest_args (JObj example_manifest)" "''abc123''"
        "[request_of entry_full, request_of entry_full]" c w'] k sel p5 e5 example_cwd
    by simp
  with e5 have r5:
    "map_option fst (main (Parsed (manifest_args (JObj example_manifest))) ?w5) = Some 0"
    by simp
  have man: "\<not> manifest_selected manual_args"
    by (simp add: manifest_selected_def manual_args_def)
  let ?w3 = "example_world [''skyrimse'', ''12'', ''x1'', ''mod.zip''] RequestFailed
              quiet_transfer"
  have bad: "py_int (py_strip ''x1'') = None"
    by code_simp
  have s3: "stdin ?w3 = ''skyrimse'' # ''12'' # ''x1'' # ''mod.zip'' # []"
    by (simp add: example_world_def)
  have r3: "map_option fst (main (Parsed manual_args) ?w3) = Some 1"
    using exit_status_of_run [of ?w3 manual_args "''abc123''" _ _ _ "''skyrimse''" "''12''"
        "''x1''" "''mod.zip''" "[]"] example_key man s3 bad
    by simp
  have g2: "py_int (py_strip ''12'') = Some 12"
    by code_simp
  have g3: "py_int (py_strip '' 34'') = Some 34"
    by code_simp
  let ?w4 = "example_world [''skyrimse'', ''12'', '' 34'', ''mod.zip'']
              (json_reply (JArr [cand_mirror])) (quiet_transfer\<lparr>stream := [Chunk [1] True]\<rparr>)"
  have s4: "stdin ?w4 = ''skyrimse'' # ''12'' # '' 34'' # ''mod.zip'' # []"
    by (simp add: example_world_def)
  have d4: "fst (download_file (net ?w4 (net_calls ?w4)) (disk ?w4) (cwd ?w4)
                  (link_from_reply (api ?w4 (api_calls ?w4))) (JStr (py_strip ''mod.zip'')))
              = Inr True"
    by code_simp
  have d4': "\<exists>b. fst (download_file (net ?w4 (net_calls ?w4)) (disk ?w4) (cwd ?w4)
                  (link_from_reply (api ?w4 (api_calls ?w4))) (JStr (py_strip ''mod.zip'')))
              = Inr b"
    using d4 by blast
  have c4: "disk ?w4 (cwd ?w4) = Some Dir"
    by (rule example_cwd)
  have r4: "map_option fst (main (Parsed manual_args) ?w4) = Some 0"
    using exit_status_of_run [of ?w4 manual_args "''abc123''" _ _ _ "''skyrimse''" "''12''"
        "'' 34''" "''mod.zip''" "[]" 12 34] example_key man s4 g2 g3 d4' c4
    by blast
  let ?w6 = "example_world [''skyrimse'', ''12'', '' 34'', []]
              (json_reply (JArr [cand_mirror])) (quiet_transfer\<lparr>connect_ok := False\<rparr>)"
  have s6: "stdin ?w6 = ''skyrimse'' # ''12'' # '' 34'' # [] # []"
    by (simp add: example_world_def)
  have t6: "truthy (link_from_reply (api ?w6 (api_calls ?w6)))"
    by code_simp
  have d6: "fst (download_file (net ?w6 (net_calls ?w6)) (disk ?w6) (cwd ?w6)
                  (link_from_reply (api ?w6 (api_calls ?w6))) (JStr (py_strip [])))
              = Inl OSError"
    by code_simp
  have r6: "map_option fst (main (Parsed manual_args) ?w6) = Some 1"
    using exit_status_of_run [of ?w6 manual_args "''abc123''" _ _ _ "''skyrimse''" "''12''"
        "'' 34''" "[]" "[]" 12 34 OSError] example_key man s6 g2 g3 t6 d6
    by simp
  have p2': "parse_wabbajack_json (manifest_file (manifest_args other_manifest)) None = Inr []"
    by code_simp
  show ?thesis
    using r0 k0 r1 p2' r2 r5 bad r3 r4 r6 by simp
qed

text \<open>
  C4 as stated fails: with the key file missing, and with it holding only white space,
  the run ends with status 1, and no manual input was read.
\<close>

theorem exit_status_no_key_counterexample:
  "map_option fst
     (main (Parsed no_key_args) (example_world [] RequestFailed quiet_transfer)) = Some 1
   \<and> map_option fst
       (main (Parsed empty_key_args) (example_world [] RequestFailed quiet_transfer))
       = Some 1"
  by (simp add: main_def load_api_key_def no_key_args_def empty_key_args_def
      py_strip_def py_isspace_def Let_def)

end
